theory Spec2Isabelle
  imports Complex_Main "HOL-Library.Log_Nat" "HOL-Library.Sublist"
begin

section \<open>Errors\<close>

text \<open>
  Go errors are values. The constructors name the errors the code creates or receives;
  \<open>Wrapped msg e\<close> is \<^verbatim>\<open>fmt.Errorf("msg: %w", e)\<close> and \<open>Errorf msg\<close> is an error
  made from a message alone.
\<close>

datatype error =
    ErrNotExist
  | ErrIO
  | ErrSyntax
  | ErrUnmarshalType
  | ErrGit
  | Errorf string
  | Wrapped string error

fun IsNotExist :: "error \<Rightarrow> bool" where
  "IsNotExist ErrNotExist = True"
| "IsNotExist _ = False"

section \<open>Configuration state\<close>

text \<open>
  Modelled from the spec: the type \<^verbatim>\<open>config.Config\<close> is not among the sources (only its
  callers and its test are). The spec and the design document give it two concurrency-safe
  scalar fields read and written through \<^verbatim>\<open>IsReadOnlyStorage/SetReadOnlyStorage\<close> and
  \<^verbatim>\<open>SyncIntervalMinutes/SetSyncIntervalMinutes\<close>; the management middleware also reads
  \<^verbatim>\<open>RemoteManagement.AllowRemote\<close> and \<^verbatim>\<open>RemoteManagement.SecretKey\<close>. Go's \<^verbatim>\<open>int\<close> is
  a 64-bit signed integer; it is modelled as \<open>int\<close> and the range is written out where the
  code depends on it.
\<close>

record Config =
  readOnlyStorage :: bool
  syncIntervalMinutes :: int
  AllowRemote :: bool
  SecretKey :: string

definition IsReadOnlyStorage :: "Config \<Rightarrow> bool" where
  "IsReadOnlyStorage c = readOnlyStorage c"

definition SetReadOnlyStorage :: "Config \<Rightarrow> bool \<Rightarrow> Config" where
  "SetReadOnlyStorage c b = c\<lparr>readOnlyStorage := b\<rparr>"

definition SyncIntervalMinutes :: "Config \<Rightarrow> int" where
  "SyncIntervalMinutes c = syncIntervalMinutes c"

definition SetSyncIntervalMinutes :: "Config \<Rightarrow> int \<Rightarrow> Config" where
  "SetSyncIntervalMinutes c n = c\<lparr>syncIntervalMinutes := n\<rparr>"

definition minInt64 :: int where
  "minInt64 = - (2 ^ 63)"

definition maxInt64 :: int where
  "maxInt64 = 2 ^ 63 - 1"

definition inInt64 :: "int \<Rightarrow> bool" where
  "inInt64 n = (minInt64 \<le> n \<and> n \<le> maxInt64)"

section \<open>The side file\<close>

subsection \<open>JSON documents and the file system\<close>

text \<open>
  A file's bytes are modelled up to JSON syntax: either text that is no JSON document, or the
  JSON value the text denotes. A number is kept as the literal read: an integer literal, or
  a literal with a fraction or an exponent (which Go does not decode into an \<^verbatim>\<open>int\<close>).
\<close>

datatype jnumber = IntLit int | NonIntLit

datatype json =
    JNull
  | JBool bool
  | JNumber jnumber
  | JString string
  | JArray "json list"
  | JObject "(string \<times> json) list"

datatype file_text = Malformed | Wellformed json

datatype file_state = NotExist | Unreadable | File file_text

record filesys =
  files :: "string \<Rightarrow> file_state"
  write_fails :: "string \<Rightarrow> bool"

definition ReadFile :: "filesys \<Rightarrow> string \<Rightarrow> error + file_text" where
  "ReadFile fs path =
     (case files fs path of
        NotExist \<Rightarrow> Inl ErrNotExist
      | Unreadable \<Rightarrow> Inl ErrIO
      | File t \<Rightarrow> Inr t)"

definition WriteFile :: "filesys \<Rightarrow> string \<Rightarrow> file_text \<Rightarrow> filesys \<times> error option" where
  "WriteFile fs path t =
     (if write_fails fs path then (fs, Some ErrIO)
      else (fs\<lparr>files := (files fs)(path := File t)\<rparr>, None))"

subsection \<open>Decoding and encoding the side document\<close>

record ReadOnlyStorageConfig =
  ReadOnly :: bool
  SyncInterval :: int

definition zeroReadOnlyStorageConfig :: ReadOnlyStorageConfig where
  "zeroReadOnlyStorageConfig = \<lparr>ReadOnly = False, SyncInterval = 0\<rparr>"

text \<open>
  \<^verbatim>\<open>encoding/json\<close> matches an object key against a field's name without regard to
  (ASCII) letter case.
\<close>

definition toLower :: "char \<Rightarrow> char" where
  "toLower c =
     (let n = (of_char c :: nat) in if 65 \<le> n \<and> n \<le> 90 then char_of (n + 32) else c)"

definition foldEq :: "string \<Rightarrow> string \<Rightarrow> bool" where
  "foldEq a b = (map toLower a = map toLower b)"

text \<open>
  One member of a JSON object is decoded into the struct. The result is the struct and a
  flag saying whether a value of the wrong type was met: the decoder records the error and
  goes on, and a \<^verbatim>\<open>null\<close> leaves the field as it is.
\<close>

fun decodeMember :: "ReadOnlyStorageConfig \<times> bool \<Rightarrow> string \<times> json \<Rightarrow> ReadOnlyStorageConfig \<times> bool" where
  "decodeMember (roc, bad) (k, v) =
     (if foldEq k ''read_only'' then
        (case v of
           JBool b \<Rightarrow> (roc\<lparr>ReadOnly := b\<rparr>, bad)
         | JNull \<Rightarrow> (roc, bad)
         | _ \<Rightarrow> (roc, True))
      else if foldEq k ''sync_interval_minutes'' then
        (case v of
           JNumber (IntLit n) \<Rightarrow> if inInt64 n then (roc\<lparr>SyncInterval := n\<rparr>, bad) else (roc, True)
         | JNumber NonIntLit \<Rightarrow> (roc, True)
         | JNull \<Rightarrow> (roc, bad)
         | _ \<Rightarrow> (roc, True))
      else (roc, bad))"

definition Unmarshal :: "file_text \<Rightarrow> error + ReadOnlyStorageConfig" where
  "Unmarshal data =
     (case data of
        Malformed \<Rightarrow> Inl ErrSyntax
      | Wellformed JNull \<Rightarrow> Inr zeroReadOnlyStorageConfig
      | Wellformed (JObject kvs) \<Rightarrow>
          (case foldl decodeMember (zeroReadOnlyStorageConfig, False) kvs of
             (roc, bad) \<Rightarrow> if bad then Inl ErrUnmarshalType else Inr roc)
      | Wellformed _ \<Rightarrow> Inl ErrUnmarshalType)"

text \<open>
  \<^verbatim>\<open>json.MarshalIndent\<close> of the struct: \<^verbatim>\<open>sync_interval_minutes\<close> carries \<^verbatim>\<open>omitempty\<close>, so
  a zero interval is left out.
\<close>

definition MarshalIndent :: "ReadOnlyStorageConfig \<Rightarrow> file_text" where
  "MarshalIndent roc =
     Wellformed (JObject
       ((''read_only'', JBool (ReadOnly roc)) #
        (if SyncInterval roc = 0 then []
         else [(''sync_interval_minutes'', JNumber (IntLit (SyncInterval roc)))])))"

subsection \<open>Loading and persisting\<close>

definition LoadReadOnlyStorageConfig :: "Config \<Rightarrow> filesys \<Rightarrow> string \<Rightarrow> Config \<times> error option" where
  "LoadReadOnlyStorageConfig setter fs path =
     (case ReadFile fs path of
        Inl err \<Rightarrow>
          if IsNotExist err then (SetReadOnlyStorage setter False, None)
          else (setter, Some (Wrapped ''failed to read read-only storage config file'' err))
      | Inr data \<Rightarrow>
          (case Unmarshal data of
             Inl err \<Rightarrow>
               (SetReadOnlyStorage setter False,
                Some (Wrapped ''failed to parse read-only storage config'' err))
           | Inr readOnlyConfig \<Rightarrow>
               (let s1 = SetReadOnlyStorage setter (ReadOnly readOnlyConfig) in
                if SyncInterval readOnlyConfig > 0
                then (SetSyncIntervalMinutes s1 (SyncInterval readOnlyConfig), None)
                else (s1, None))))"

definition defaultSideDocument :: file_text where
  "defaultSideDocument = Wellformed (JObject [(''read_only'', JBool False)])"

definition PersistReadOnlyState :: "bool \<Rightarrow> int \<Rightarrow> string \<Rightarrow> filesys \<Rightarrow> filesys \<times> error option" where
  "PersistReadOnlyState readOnly syncMinutes path fs =
     (case (case ReadFile fs path of
              Inl err \<Rightarrow>
                if \<not> IsNotExist err
                then Inl (Wrapped ''failed to read read-only storage config file'' err)
                else Inr defaultSideDocument
            | Inr data \<Rightarrow> Inr data) of
        Inl e \<Rightarrow> (fs, Some e)
      | Inr data \<Rightarrow>
          (case Unmarshal data of
             Inl err \<Rightarrow> (fs, Some (Wrapped ''failed to parse read-only storage config'' err))
           | Inr readOnlyConfig \<Rightarrow>
               (case WriteFile fs path
                       (MarshalIndent (readOnlyConfig\<lparr>ReadOnly := readOnly, SyncInterval := syncMinutes\<rparr>)) of
                  (fs', Some err) \<Rightarrow>
                    (fs', Some (Wrapped ''failed to write updated read-only storage config'' err))
                | (fs', None) \<Rightarrow> (fs', None))))"

section \<open>The sync scheduler\<close>

subsection \<open>Outcomes, the token store and the git library\<close>

text \<open>
  A Go call either returns or panics (closing a channel that is closed already panics).
\<close>

datatype 'a outcome = Panics string | Returns 'a

text \<open>
  Modelled from the spec: \<^verbatim>\<open>GitTokenStore\<close> is not among the sources. It is the repository
  collaborator of the spec, taken as the results its methods return: \<^verbatim>\<open>EnsureRepository\<close>,
  \<^verbatim>\<open>repoDirSnapshot\<close> and \<^verbatim>\<open>HasPendingLocalChanges\<close>.
\<close>

record GitTokenStore =
  ensureRepositoryResult :: "error option"
  repoDir :: string
  pendingLocalChanges :: "bool \<times> error option"

text \<open>
  The go-git library, as the scheduler uses it. A commit is a number. The environment says
  how each call answers: opening the repository, fetching (after which the remote-tracking
  references are \<open>remoteRefs\<close>), getting the worktree and resetting. The worktree is the
  commit checked out and whether local modifications lie on top of it. An \<open>action\<close> is a
  call a sync can make; \<open>Pull\<close> is \<^verbatim>\<open>worktree.Pull\<close>, the merge-preserving pull.
\<close>

datatype fetch_result = FetchDone | FetchUpToDate | FetchFailed error

record GitEnv =
  plainOpenResult :: "error option"
  fetchResult :: fetch_result
  remoteRefs :: "string \<Rightarrow> nat option"
  worktreeResult :: "error option"
  resetResult :: "error option"

record Worktree =
  checkedOut :: nat
  localModifications :: bool

datatype reset_mode = HardReset | MixedReset | SoftReset

datatype action =
    EnsureRepository
  | PlainOpen string
  | Fetch string bool
  | Reference string
  | GetWorktree
  | Reset nat reset_mode
  | Pull string bool
  | SyncCompleteCallback

subsection \<open>The scheduler's state\<close>

text \<open>
  The struct \<^verbatim>\<open>GitScheduler\<close>. A channel is a number; \<open>chanClosed\<close> says which channels are
  closed and \<open>nextChan\<close> is the channel the next \<^verbatim>\<open>make(chan struct{})\<close> returns. \<open>spawned\<close>
  lists the stop channels of the loop goroutines launched so far, and \<open>calls\<close> the calls of
  \<^verbatim>\<open>Start\<close> and \<^verbatim>\<open>Stop\<close> made, in order: the instrumentation the spec asks for.
\<close>

datatype call = CallStart | CallStop

record GitScheduler =
  config :: "Config option"
  tokenStore :: "GitTokenStore option"
  stopCh :: nat
  running :: bool
  onSyncComplete :: bool
  chanClosed :: "nat \<Rightarrow> bool"
  nextChan :: nat
  spawned :: "nat list"
  calls :: "call list"

definition NewGitScheduler :: "Config option \<Rightarrow> GitTokenStore option \<Rightarrow> GitScheduler" where
  "NewGitScheduler c st =
     \<lparr>config = c, tokenStore = st, stopCh = 0, running = False, onSyncComplete = False,
      chanClosed = (\<lambda>_. False), nextChan = 1, spawned = [], calls = []\<rparr>"

definition closeChan :: "GitScheduler \<Rightarrow> GitScheduler outcome" where
  "closeChan s =
     (if chanClosed s (stopCh s) then Panics ''close of closed channel''
      else Returns (s\<lparr>chanClosed := (chanClosed s)(stopCh s := True)\<rparr>))"

subsection \<open>Start, Stop, UpdateConfig (src/unnamed/part\_003)\<close>

definition Start :: "GitScheduler \<Rightarrow> (GitScheduler \<times> error option) outcome" where
  "Start s0 =
     (let s = s0\<lparr>calls := calls s0 @ [CallStart]\<rparr> in
      case (if running s
            then (case closeChan s of
                    Panics m \<Rightarrow> Panics m
                  | Returns s1 \<Rightarrow>
                      Returns (s1\<lparr>running := False, stopCh := nextChan s1, nextChan := Suc (nextChan s1)\<rparr>))
            else Returns s) of
        Panics m \<Rightarrow> Panics m
      | Returns s2 \<Rightarrow>
          if config s2 = None then Returns (s2, Some (Errorf ''configuration is nil''))
          else if tokenStore s2 = None then Returns (s2, Some (Errorf ''token store is nil''))
          else Returns (s2\<lparr>running := True, spawned := spawned s2 @ [stopCh s2]\<rparr>, None))"

definition Stop :: "GitScheduler \<Rightarrow> GitScheduler outcome" where
  "Stop s0 =
     (let s = s0\<lparr>calls := calls s0 @ [CallStop]\<rparr> in
      if \<not> running s then Returns s
      else (case closeChan s of
              Panics m \<Rightarrow> Panics m
            | Returns s1 \<Rightarrow> Returns (s1\<lparr>running := False\<rparr>)))"

definition UpdateConfig :: "GitScheduler \<Rightarrow> Config option \<Rightarrow> (GitScheduler \<times> error option) outcome" where
  "UpdateConfig s cfgArg =
     (case cfgArg of
        None \<Rightarrow> Returns (s, Some (Errorf ''configuration is nil''))
      | Some c \<Rightarrow>
          (let newReadOnly = IsReadOnlyStorage c;
               s1 = s\<lparr>config := Some c\<rparr>;
               shouldRun = newReadOnly;
               isRunning = running s1
           in if shouldRun \<and> \<not> isRunning then Start s1
              else if \<not> shouldRun \<and> isRunning then
                (case Stop s1 of
                   Panics m \<Rightarrow> Panics m
                 | Returns s2 \<Rightarrow> Returns (s2, None))
              else Returns (s1, None)))"

definition HasPendingLocalChanges :: "GitScheduler \<Rightarrow> bool \<times> error option" where
  "HasPendingLocalChanges s =
     (case tokenStore s of
        None \<Rightarrow> (False, Some (Errorf ''token store is nil''))
      | Some st \<Rightarrow> pendingLocalChanges st)"

subsection \<open>One sync attempt (src/unnamed/part\_003)\<close>

text \<open>
  Every function returns the library calls it made, in order, the worktree it leaves and
  its error. \<open>resolveRemoteRef\<close> is the nested lookup of \<^verbatim>\<open>pullChanges\<close>: the names tried,
  and the commit found.
\<close>

definition resolveRemoteRef :: "GitEnv \<Rightarrow> action list \<times> nat option" where
  "resolveRemoteRef env =
     (case remoteRefs env ''refs/remotes/origin/HEAD'' of
        Some h \<Rightarrow> ([Reference ''refs/remotes/origin/HEAD''], Some h)
      | None \<Rightarrow>
          (case remoteRefs env ''refs/remotes/origin/main'' of
             Some h \<Rightarrow>
               ([Reference ''refs/remotes/origin/HEAD'', Reference ''refs/remotes/origin/main''],
                Some h)
           | None \<Rightarrow>
               (case remoteRefs env ''refs/remotes/origin/master'' of
                  Some h \<Rightarrow>
                    ([Reference ''refs/remotes/origin/HEAD'', Reference ''refs/remotes/origin/main'',
                      Reference ''refs/remotes/origin/master''], Some h)
                | None \<Rightarrow>
                    ([Reference ''refs/remotes/origin/HEAD'', Reference ''refs/remotes/origin/main'',
                      Reference ''refs/remotes/origin/master''], None))))"

definition pullChanges :: "GitTokenStore \<Rightarrow> GitEnv \<Rightarrow> Worktree \<Rightarrow> action list \<times> Worktree \<times> error option" where
  "pullChanges st env wt =
     (if repoDir st = [] then ([], wt, Some (Errorf ''repository directory not configured''))
      else case plainOpenResult env of
        Some e \<Rightarrow> ([PlainOpen (repoDir st)], wt, Some (Wrapped ''failed to open repository'' e))
      | None \<Rightarrow>
          (case fetchResult env of
             FetchFailed e \<Rightarrow>
               ([PlainOpen (repoDir st), Fetch ''origin'' True], wt,
                Some (Wrapped ''failed to fetch changes'' e))
           | _ \<Rightarrow>
               (case resolveRemoteRef env of
                  (tried, None) \<Rightarrow>
                    ([PlainOpen (repoDir st), Fetch ''origin'' True] @ tried, wt,
                     Some (Wrapped ''failed to find remote branch reference'' ErrGit))
                | (tried, Some h) \<Rightarrow>
                    (case worktreeResult env of
                       Some e \<Rightarrow>
                         ([PlainOpen (repoDir st), Fetch ''origin'' True] @ tried @ [GetWorktree], wt,
                          Some (Wrapped ''failed to get worktree'' e))
                     | None \<Rightarrow>
                         (case resetResult env of
                            Some e \<Rightarrow>
                              ([PlainOpen (repoDir st), Fetch ''origin'' True] @ tried
                                 @ [GetWorktree, Reset h HardReset], wt,
                               Some (Wrapped ''failed to reset to remote'' e))
                          | None \<Rightarrow>
                              ([PlainOpen (repoDir st), Fetch ''origin'' True] @ tried
                                 @ [GetWorktree, Reset h HardReset],
                               \<lparr>checkedOut = h, localModifications = False\<rparr>, None))))))"

text \<open>
  \<^verbatim>\<open>sync\<close> dereferences \<^verbatim>\<open>s.config\<close> and \<^verbatim>\<open>s.tokenStore\<close>: a nil pointer there panics.
\<close>

definition sync :: "GitScheduler \<Rightarrow> GitEnv \<Rightarrow> Worktree \<Rightarrow> (action list \<times> Worktree \<times> error option) outcome" where
  "sync s env wt =
     (case config s of
        None \<Rightarrow> Panics ''nil pointer dereference''
      | Some c \<Rightarrow>
          if IsReadOnlyStorage c then
            (case tokenStore s of
               None \<Rightarrow> Panics ''nil pointer dereference''
             | Some st \<Rightarrow>
                 (case ensureRepositoryResult st of
                    Some e \<Rightarrow>
                      Returns ([EnsureRepository], wt, Some (Wrapped ''failed to ensure repository'' e))
                  | None \<Rightarrow>
                      (case pullChanges st env wt of
                         (acts, wt', Some e) \<Rightarrow>
                           Returns (EnsureRepository # acts, wt', Some (Wrapped ''failed to pull changes'' e))
                       | (acts, wt', None) \<Rightarrow>
                           Returns (EnsureRepository # acts
                                      @ (if onSyncComplete s then [SyncCompleteCallback] else []),
                                    wt', None))))
          else Returns ([], wt, None))"

subsection \<open>The run loop\<close>

text \<open>
  A \<^verbatim>\<open>time.Duration\<close> is a 64-bit signed count of nanoseconds: the product
  \<^verbatim>\<open>time.Duration(minutes) * time.Minute\<close> wraps around.
\<close>

definition wrapInt64 :: "int \<Rightarrow> int" where
  "wrapInt64 x = (x + 2 ^ 63) mod 2 ^ 64 - 2 ^ 63"

definition Second :: int where
  "Second = 1000000000"

definition Minute :: int where
  "Minute = 60 * Second"

definition syncIntervalOf :: "int \<Rightarrow> int" where
  "syncIntervalOf minutes =
     (let syncInterval = wrapInt64 (minutes * Minute)
      in if syncInterval \<le> 0 then 60 * Minute else syncInterval)"

text \<open>
  The loop runs beside the rest of the program, so each iteration reads from its
  environment: the configuration and the running flag it finds under the lock, the error
  its sync returns, and which case of its \<^verbatim>\<open>select\<close> comes first. \<open>run\<close> takes these readings, one
  per iteration, and returns what the loop does: it ends with \<open>Exit\<close> when the loop returns,
  and without it when the readings run out while the loop is still going. \<open>run\<close> is the loop
  of \<^verbatim>\<open>src/unnamed/part_003\<close>; \<open>run_scheduler_go\<close> is the loop of the other copy of the
  scheduler in the repository, \<^verbatim>\<open>src/internal/store/scheduler.go\<close>.
\<close>

datatype wake = TimerFired | Cancelled

record reading =
  cfgRead :: "Config option"
  runningRead :: bool
  syncError :: "error option"
  woken :: wake

datatype loop_event =
    CallSync
  | LogSyncFailed error
  | WaitTimerOrCancel int
  | WaitCancelOrAfter int
  | StopTimer
  | Exit

definition logSync :: "error option \<Rightarrow> loop_event list" where
  "logSync r = (case r of None \<Rightarrow> [] | Some e \<Rightarrow> [LogSyncFailed e])"

fun run :: "reading list \<Rightarrow> loop_event list" where
  "run [] = []"
| "run (r # rs) =
     (if \<not> runningRead r then [Exit]
      else if cfgRead r \<noteq> None \<and> IsReadOnlyStorage (the (cfgRead r)) then
        CallSync # logSync (syncError r)
          @ WaitTimerOrCancel (syncIntervalOf (SyncIntervalMinutes (the (cfgRead r))))
          # (case woken r of
               TimerFired \<Rightarrow> run rs
             | Cancelled \<Rightarrow> [StopTimer, Exit])
      else
        WaitCancelOrAfter Second
          # (case woken r of
               Cancelled \<Rightarrow> [Exit]
             | TimerFired \<Rightarrow> run rs))"

fun run_scheduler_go :: "reading list \<Rightarrow> loop_event list" where
  "run_scheduler_go [] = []"
| "run_scheduler_go (r # rs) =
     (if \<not> runningRead r then [Exit]
      else if cfgRead r \<noteq> None \<and> readOnlyStorage (the (cfgRead r)) then
        WaitTimerOrCancel (syncIntervalOf (syncIntervalMinutes (the (cfgRead r))))
          # (case woken r of
               TimerFired \<Rightarrow> CallSync # logSync (syncError r) @ run_scheduler_go rs
             | Cancelled \<Rightarrow> [StopTimer, Exit])
      else
        WaitCancelOrAfter Second
          # (case woken r of
               Cancelled \<Rightarrow> [Exit]
             | TimerFired \<Rightarrow> run_scheduler_go rs))"

section \<open>The management control plane (src/unnamed/part\_004)\<close>

subsection \<open>The handler and what it persists to\<close>

record attemptInfo =
  count :: int
  blockedUntil :: "int option"

text \<open>
  The struct \<^verbatim>\<open>Handler\<close>, with the fields the storage endpoints and the middleware use.
  A time is a count of nanoseconds; the zero \<^verbatim>\<open>time.Time\<close> of \<^verbatim>\<open>blockedUntil\<close> is \<open>None\<close>.
\<close>

record Handler =
  cfg :: "Config option"
  configFilePath :: string
  failedAttempts :: "string \<Rightarrow> attemptInfo option"
  localPassword :: string
  allowRemoteOverride :: bool
  envSecret :: string
  scheduler :: "GitScheduler option"

text \<open>
  What the handler writes to: the file system holding the side file, and the main
  configuration files. Modelled from the spec: \<^verbatim>\<open>config.SaveConfigPreserveComments\<close> is not
  among the sources; it is the spec's "save full configuration" operation, which stores
  the configuration under the path or fails.
\<close>

record Disk =
  sideFiles :: filesys
  mainConfig :: "string \<Rightarrow> Config option"
  saveFails :: bool

definition SaveConfigPreserveComments :: "Disk \<Rightarrow> string \<Rightarrow> Config option \<Rightarrow> Disk \<times> error option" where
  "SaveConfigPreserveComments d path c =
     (if saveFails d \<or> c = None then (d, Some ErrIO)
      else (d\<lparr>mainConfig := (mainConfig d)(path := c)\<rparr>, None))"

subsection \<open>The authentication middleware\<close>

record request =
  clientIP :: string
  authorizationHeader :: string
  managementKeyHeader :: string

datatype abort_body = ErrorText string | BannedTryAgainIn int

datatype mw_result = Next | AbortWithStatusJSON nat abort_body

definition maxFailures :: int where
  "maxFailures = 5"

definition banDuration :: int where
  "banDuration = 30 * Minute"

text \<open>
  \<^verbatim>\<open>Duration.Round\<close> of the standard library: to the nearest multiple of \<open>m\<close>, halfway
  values away from zero. Go's \<^verbatim>\<open>%\<close> truncates towards zero.
\<close>

definition goRem :: "int \<Rightarrow> int \<Rightarrow> int" where
  "goRem d m = (if d < 0 then - ((- d) mod \<bar>m\<bar>) else d mod \<bar>m\<bar>)"

definition Round :: "int \<Rightarrow> int \<Rightarrow> int" where
  "Round d m =
     (if m \<le> 0 then d
      else let r = goRem d m in
        if d < 0 then
          (let r' = - r in
           if r' + r' < m then d + r'
           else let d1 = wrapInt64 (d - m + r') in if d1 < d then d1 else minInt64)
        else
          (if r + r < m then d - r
           else let d1 = wrapInt64 (d + m - r) in if d1 > d then d1 else maxInt64))"

text \<open>
  The key presented: \<^verbatim>\<open>Authorization: Bearer <key>\<close> (the header as it is when it is not
  of that form), else \<^verbatim>\<open>X-Management-Key\<close>. \<open>SplitN2\<close> is \<^verbatim>\<open>strings.SplitN(s, " ", 2)\<close>.
\<close>

definition SplitN2 :: "string \<Rightarrow> string list" where
  "SplitN2 s =
     (if CHR '' '' \<in> set s
      then [takeWhile (\<lambda>c. c \<noteq> CHR '' '') s, tl (dropWhile (\<lambda>c. c \<noteq> CHR '' '') s)]
      else [s])"

definition providedKey :: "request \<Rightarrow> string" where
  "providedKey req =
     (let ah = authorizationHeader req;
          provided =
            (if ah \<noteq> [] then
               (let parts = SplitN2 ah in
                if length parts = 2 \<and> map toLower (parts ! 0) = ''bearer'' then parts ! 1 else ah)
             else [])
      in if provided = [] then managementKeyHeader req else provided)"

text \<open>The closure \<^verbatim>\<open>fail\<close> of the middleware, and the reset done on a success.\<close>

definition fail :: "Handler \<Rightarrow> int \<Rightarrow> string \<Rightarrow> Handler" where
  "fail h now ip =
     (let aip = (case failedAttempts h ip of
                   None \<Rightarrow> \<lparr>count = 0, blockedUntil = None\<rparr>
                 | Some a \<Rightarrow> a);
          aip1 = aip\<lparr>count := count aip + 1\<rparr>;
          aip2 = (if count aip1 \<ge> maxFailures
                  then aip1\<lparr>blockedUntil := Some (now + banDuration), count := 0\<rparr>
                  else aip1)
      in h\<lparr>failedAttempts := (failedAttempts h)(ip := Some aip2)\<rparr>)"

definition resetAttempts :: "Handler \<Rightarrow> string \<Rightarrow> Handler" where
  "resetAttempts h ip =
     (case failedAttempts h ip of
        None \<Rightarrow> h
      | Some ai \<Rightarrow>
          h\<lparr>failedAttempts := (failedAttempts h)(ip := Some (ai\<lparr>count := 0, blockedUntil := None\<rparr>))\<rparr>)"

text \<open>
  The first block of the middleware for a caller that is not local: the ban check. It
  returns the remaining ban when the caller is banned, and resets an expired ban.
\<close>

definition banCheck :: "Handler \<Rightarrow> int \<Rightarrow> string \<Rightarrow> Handler \<times> int option" where
  "banCheck h now ip =
     (case failedAttempts h ip of
        None \<Rightarrow> (h, None)
      | Some ai \<Rightarrow>
          (case blockedUntil ai of
             None \<Rightarrow> (h, None)
           | Some t \<Rightarrow>
               if now < t then (h, Some (Round (t - now) Second))
               else (h\<lparr>failedAttempts :=
                         (failedAttempts h)(ip := Some (ai\<lparr>blockedUntil := None, count := 0\<rparr>))\<rparr>,
                     None)))"

text \<open>
  The middleware. \<open>bcrypt hash key\<close> says whether \<^verbatim>\<open>bcrypt.CompareHashAndPassword\<close> accepts
  the key for the hash; \<open>now\<close> is the clock. \<^verbatim>\<open>subtle.ConstantTimeCompare\<close> is equality.
\<close>

definition Middleware :: "(string \<Rightarrow> string \<Rightarrow> bool) \<Rightarrow> Handler \<Rightarrow> int \<Rightarrow> request \<Rightarrow> Handler \<times> mw_result" where
  "Middleware bcrypt h0 now req =
     (let ip = clientIP req;
          localClient = (ip = ''127.0.0.1'' \<or> ip = ''::1'');
          allowRemote = (allowRemoteOverride h0 \<or> (case cfg h0 of None \<Rightarrow> False | Some c \<Rightarrow> AllowRemote c));
          secretHash = (case cfg h0 of None \<Rightarrow> [] | Some c \<Rightarrow> SecretKey c);
          secret = envSecret h0;
          (h, banned) = (if \<not> localClient then banCheck h0 now ip else (h0, None))
      in case banned of
           Some remaining \<Rightarrow> (h, AbortWithStatusJSON 403 (BannedTryAgainIn remaining))
         | None \<Rightarrow>
             if \<not> localClient \<and> \<not> allowRemote
             then (h, AbortWithStatusJSON 403 (ErrorText ''remote management disabled''))
             else if secretHash = [] \<and> secret = []
             then (h, AbortWithStatusJSON 403 (ErrorText ''remote management key not set''))
             else
               (let provided = providedKey req in
                if provided = [] then
                  ((if \<not> localClient then fail h now ip else h),
                   AbortWithStatusJSON 401 (ErrorText ''missing management key''))
                else if localClient \<and> localPassword h \<noteq> [] \<and> provided = localPassword h
                then (h, Next)
                else if secret \<noteq> [] \<and> provided = secret
                then ((if \<not> localClient then resetAttempts h ip else h), Next)
                else if secretHash = [] \<or> \<not> bcrypt secretHash provided
                then ((if \<not> localClient then fail h now ip else h),
                      AbortWithStatusJSON 401 (ErrorText ''invalid management key''))
                else ((if \<not> localClient then resetAttempts h ip else h), Next)))"

subsection \<open>Request bodies\<close>

text \<open>
  A request body, as sent: \<open>None\<close> when it is no JSON object, else the members of the
  object in the order written (a body \<^verbatim>\<open>null\<close> binds like an object with no member). A
  number is the rational its literal denotes.
\<close>

datatype body_value =
    BNull
  | BBool bool
  | BNumber rat
  | BString string
  | BArray "body_value list"
  | BObject "(string \<times> body_value) list"

type_synonym request_body = "(string \<times> body_value) list option"

text \<open>
  What \<^verbatim>\<open>encoding/json\<close> decodes into an \<^verbatim>\<open>any\<close>. A JSON number becomes a \<^verbatim>\<open>float64\<close>, kept
  as the rational the \<^verbatim>\<open>float64\<close> is; \<open>AInt\<close> is a Go \<^verbatim>\<open>int\<close>, which decoding never
  yields and which the code also tests for.
\<close>

datatype any =
    ANil
  | ABool bool
  | AFloat64 rat
  | AInt int
  | AString string
  | AArray "any list"
  | AMap "(string \<times> any) list"

type_synonym json_body = "(string \<Rightarrow> any option) option"

text \<open>
  \<^verbatim>\<open>strconv.ParseFloat(s, 64)\<close>, which decodes a number: the \<^verbatim>\<open>float64\<close> nearest to the
  number, a tie going to the even mantissa. A \<^verbatim>\<open>float64\<close> has 53 bits of mantissa and a
  binary exponent from -1022 (below which the spacing of the values stays that of
  exponent -1022) to 1023; a number that rounds to \<open>2\<^sup>1\<^sup>0\<^sup>2\<^sup>4\<close> or more is out of range,
  which is an error: \<open>None\<close>. \<open>floorLog2 x\<close> is the exponent \<open>e\<close> with
  \<open>2\<^sup>e \<le> x < 2\<^sup>e\<^sup>+\<^sup>1\<close> of a positive \<open>x\<close>.
\<close>

definition pow2 :: "int \<Rightarrow> rat" where
  "pow2 e = (if 0 \<le> e then 2 ^ nat e else 1 / 2 ^ nat (- e))"

definition floorLog2 :: "rat \<Rightarrow> int" where
  "floorLog2 x =
     (case quotient_of x of
        (a, b) \<Rightarrow> (let e0 = bitlen a - bitlen b in if pow2 e0 \<le> x then e0 else e0 - 1))"

definition roundHalfEven :: "rat \<Rightarrow> int" where
  "roundHalfEven x =
     (let n = \<lfloor>x\<rfloor>; r = x - of_int n
      in if r < 1 / 2 then n else if 1 / 2 < r then n + 1 else if even n then n else n + 1)"

definition toFloat64 :: "rat \<Rightarrow> rat option" where
  "toFloat64 x =
     (if x = 0 then Some 0
      else let a = \<bar>x\<bar>;
               e = max (floorLog2 a) (- 1022);
               ulp = pow2 (e - 52);
               r = of_int (roundHalfEven (a / ulp)) * ulp
           in if pow2 1024 \<le> r then None else Some (if x < 0 then - r else r))"

text \<open>
  Decoding a value, a list of values and the members of an object: a number that is out of
  range fails the whole decoding.
\<close>

fun decodeValue :: "body_value \<Rightarrow> any option"
  and decodeList :: "body_value list \<Rightarrow> any list option"
  and decodeMembers :: "(string \<times> body_value) list \<Rightarrow> (string \<times> any) list option" where
  "decodeValue BNull = Some ANil"
| "decodeValue (BBool b) = Some (ABool b)"
| "decodeValue (BNumber q) = map_option AFloat64 (toFloat64 q)"
| "decodeValue (BString str) = Some (AString str)"
| "decodeValue (BArray vs) = map_option AArray (decodeList vs)"
| "decodeValue (BObject kvs) = map_option AMap (decodeMembers kvs)"
| "decodeList [] = Some []"
| "decodeList (v # vs) =
     (case decodeValue v of
        None \<Rightarrow> None
      | Some a \<Rightarrow> map_option ((#) a) (decodeList vs))"
| "decodeMembers [] = Some []"
| "decodeMembers ((k, v) # kvs) =
     (case decodeValue v of
        None \<Rightarrow> None
      | Some a \<Rightarrow> map_option ((#) (k, a)) (decodeMembers kvs))"

text \<open>
  \<^verbatim>\<open>c.ShouldBindJSON(&m)\<close> for a \<^verbatim>\<open>map[string]any\<close>: \<open>None\<close> when binding fails, else the
  map, in which the last of several members with one key stands.
\<close>

definition ShouldBindJSON :: "request_body \<Rightarrow> json_body" where
  "ShouldBindJSON body =
     (case body of
        None \<Rightarrow> None
      | Some kvs \<Rightarrow> map_option (\<lambda>ms. map_of (rev ms)) (decodeMembers kvs))"

datatype field_error =
    MustBeWholeNumber string
  | MustBeAtLeast string int
  | MustBeNumber string

datatype resp_body =
    ErrorBody string
  | FieldError field_error
  | ReadOnlyBody bool
  | SyncIntervalBody int

datatype response = Response nat resp_body

definition parseBoolField :: "request_body \<Rightarrow> string \<Rightarrow> string \<Rightarrow> bool \<times> bool" where
  "parseBoolField body primaryKey altKey =
     (case ShouldBindJSON body of
        None \<Rightarrow> (False, False)
      | Some m \<Rightarrow>
          (case m primaryKey of
             Some (ABool b) \<Rightarrow> (b, True)
           | _ \<Rightarrow>
               (case m altKey of
                  Some (ABool b) \<Rightarrow> (b, True)
                | _ \<Rightarrow> (False, False))))"

text \<open>
  The conversion \<^verbatim>\<open>int(f)\<close> of a \<^verbatim>\<open>float64\<close> truncates towards zero. When the value does not
  fit the \<^verbatim>\<open>int\<close>, Go leaves the result to the implementation. The two behaviours of Go's
  64-bit targets are modelled: the conversion of amd64 returns \<open>-2\<^sup>6\<^sup>3\<close> for every value
  that does not fit (\<open>Indefinite\<close>), the conversion of arm64 returns the nearest \<^verbatim>\<open>int\<close>
  (\<open>Saturating\<close>).
\<close>

datatype conversion = Indefinite | Saturating

definition truncToZero :: "rat \<Rightarrow> int" where
  "truncToZero f = (if f < 0 then \<lceil>f\<rceil> else \<lfloor>f\<rfloor>)"

definition floatToInt :: "conversion \<Rightarrow> rat \<Rightarrow> int" where
  "floatToInt conv f =
     (if inInt64 (truncToZero f) then truncToZero f
      else case conv of
             Indefinite \<Rightarrow> minInt64
           | Saturating \<Rightarrow> if f < 0 then minInt64 else maxInt64)"

text \<open>
  \<^verbatim>\<open>parseIntField\<close> runs the same block on the primary key and, when that key is absent,
  on the alternative key: \<open>parseIntValue\<close> is that block.
\<close>

definition parseIntValue :: "conversion \<Rightarrow> string \<Rightarrow> int \<Rightarrow> any \<Rightarrow> int \<times> bool \<times> field_error option" where
  "parseIntValue conv key minimum val =
     (case val of
        AFloat64 f \<Rightarrow>
          if f \<noteq> of_int \<lfloor>f\<rfloor> then (0, True, Some (MustBeWholeNumber key))
          else (let intVal = floatToInt conv f in
                if intVal < minimum then (0, True, Some (MustBeAtLeast key minimum))
                else (intVal, True, None))
      | AInt i \<Rightarrow>
          if i < minimum then (0, True, Some (MustBeAtLeast key minimum))
          else (i, True, None)
      | _ \<Rightarrow> (0, True, Some (MustBeNumber key)))"

definition parseIntField :: "conversion \<Rightarrow> request_body \<Rightarrow> string \<Rightarrow> string \<Rightarrow> int \<Rightarrow> int \<times> bool \<times> field_error option" where
  "parseIntField conv body primaryKey altKey minimum =
     (case ShouldBindJSON body of
        None \<Rightarrow> (0, False, None)
      | Some m \<Rightarrow>
          (case m primaryKey of
             Some val \<Rightarrow> parseIntValue conv primaryKey minimum val
           | None \<Rightarrow>
               (case m altKey of
                  Some val \<Rightarrow> parseIntValue conv altKey minimum val
                | None \<Rightarrow> (0, False, None))))"

subsection \<open>Persisting\<close>

definition persistConfig :: "Handler \<Rightarrow> Disk \<Rightarrow> Disk \<times> bool" where
  "persistConfig h d =
     (case SaveConfigPreserveComments d (configFilePath h) (cfg h) of
        (d', Some err) \<Rightarrow> (d', False)
      | (d', None) \<Rightarrow> (d', True))"

definition persistBothToJSONAfterUnlock :: "Disk \<Rightarrow> bool \<Rightarrow> int \<Rightarrow> Disk" where
  "persistBothToJSONAfterUnlock d readOnly syncMinutes =
     (let data = (case ReadFile (sideFiles d) ''data/read_only_storage.json'' of
                    Inl err \<Rightarrow> defaultSideDocument
                  | Inr data \<Rightarrow> data)
      in case Unmarshal data of
           Inl err \<Rightarrow> d
         | Inr readOnlyConfig \<Rightarrow>
             d\<lparr>sideFiles :=
                 fst (WriteFile (sideFiles d) ''data/read_only_storage.json''
                        (MarshalIndent (readOnlyConfig\<lparr>ReadOnly := readOnly, SyncInterval := syncMinutes\<rparr>)))\<rparr>)"

definition persistReadOnlyToJSONAfterUnlock :: "Handler \<Rightarrow> Disk \<Rightarrow> bool \<Rightarrow> Disk" where
  "persistReadOnlyToJSONAfterUnlock h d readOnly =
     (let currentSyncInterval = (case cfg h of Some c \<Rightarrow> SyncIntervalMinutes c | None \<Rightarrow> 0)
      in persistBothToJSONAfterUnlock d readOnly currentSyncInterval)"

definition persistSyncIntervalToJSONAfterUnlock :: "Handler \<Rightarrow> Disk \<Rightarrow> int \<Rightarrow> Disk" where
  "persistSyncIntervalToJSONAfterUnlock h d syncMinutes =
     (let currentReadOnly = (case cfg h of Some c \<Rightarrow> IsReadOnlyStorage c | None \<Rightarrow> False)
      in persistBothToJSONAfterUnlock d currentReadOnly syncMinutes)"

subsection \<open>The storage endpoints\<close>

text \<open>
  The part of \<^verbatim>\<open>updateStorageReadOnly\<close> and \<^verbatim>\<open>updateStorageSyncInterval\<close> under the lock:
  the new configuration is set and, when there is a scheduler, pushed into it (the error
  \<^verbatim>\<open>UpdateConfig\<close> returns is dropped; a panic is not).
\<close>

definition pushConfig :: "Handler \<Rightarrow> Config \<Rightarrow> Handler outcome" where
  "pushConfig h c =
     (let h1 = h\<lparr>cfg := Some c\<rparr> in
      case scheduler h1 of
        None \<Rightarrow> Returns h1
      | Some s \<Rightarrow>
          (case UpdateConfig s (Some c) of
             Panics m \<Rightarrow> Panics m
           | Returns (s', err) \<Rightarrow> Returns (h1\<lparr>scheduler := Some s'\<rparr>)))"

definition updateStorageReadOnly :: "Handler \<Rightarrow> Disk \<Rightarrow> bool \<Rightarrow> (Handler \<times> Disk) outcome" where
  "updateStorageReadOnly h d readOnly =
     (case (case cfg h of
              None \<Rightarrow> Returns h
            | Some cfgSnapshot \<Rightarrow> pushConfig h (SetReadOnlyStorage cfgSnapshot readOnly)) of
        Panics m \<Rightarrow> Panics m
      | Returns h1 \<Rightarrow>
          (let d1 = fst (persistConfig h1 d)
           in Returns (h1, persistReadOnlyToJSONAfterUnlock h1 d1 readOnly)))"

definition updateStorageSyncInterval :: "Handler \<Rightarrow> Disk \<Rightarrow> int \<Rightarrow> (Handler \<times> Disk) outcome" where
  "updateStorageSyncInterval h d syncMinutes =
     (case (case cfg h of
              None \<Rightarrow> Returns h
            | Some cfgSnapshot \<Rightarrow> pushConfig h (SetSyncIntervalMinutes cfgSnapshot syncMinutes)) of
        Panics m \<Rightarrow> Panics m
      | Returns h1 \<Rightarrow>
          (let d1 = fst (persistConfig h1 d)
           in Returns (h1, persistSyncIntervalToJSONAfterUnlock h1 d1 syncMinutes)))"

text \<open>
  \<^verbatim>\<open>ensureCanEnableReadOnly\<close> returns whether read-only may be enabled, and the response it
  wrote when it may not. \<open>queried\<close> says whether \<^verbatim>\<open>HasPendingLocalChanges\<close> was called.
\<close>

record guard_result =
  allowed :: bool
  written :: "response option"
  queried :: bool

definition ensureCanEnableReadOnly :: "Handler \<Rightarrow> guard_result" where
  "ensureCanEnableReadOnly h =
     (case scheduler h of
        Some s \<Rightarrow>
          (case HasPendingLocalChanges s of
             (hasChanges, Some err) \<Rightarrow>
               \<lparr>allowed = False,
                written = Some (Response 500 (ErrorBody ''Cannot check for pending changes'')),
                queried = True\<rparr>
           | (hasChanges, None) \<Rightarrow>
               if hasChanges then
                 \<lparr>allowed = False,
                  written = Some (Response 400 (ErrorBody
                    ''Cannot enable read-only mode while there are pending local changes. Please sync changes first.'')),
                  queried = True\<rparr>
               else \<lparr>allowed = True, written = None, queried = True\<rparr>)
      | None \<Rightarrow> \<lparr>allowed = True, written = None, queried = False\<rparr>)"

definition PutStorageReadOnly :: "Handler \<Rightarrow> Disk \<Rightarrow> request_body \<Rightarrow> (Handler \<times> Disk \<times> response) outcome" where
  "PutStorageReadOnly h d body =
     (case parseBoolField body ''read_only'' ''value'' of
        (v, False) \<Rightarrow> Returns (h, d, Response 400 (ErrorBody ''invalid body''))
      | (v, True) \<Rightarrow>
          (case (if v then written (ensureCanEnableReadOnly h) else None) of
             Some refusal \<Rightarrow> Returns (h, d, refusal)
           | None \<Rightarrow>
               (case updateStorageReadOnly h d v of
                  Panics m \<Rightarrow> Panics m
                | Returns (h', d') \<Rightarrow> Returns (h', d', Response 200 (ReadOnlyBody v)))))"

definition minSyncIntervalMinutes :: int where
  "minSyncIntervalMinutes = 1"

definition PutStorageSyncInterval :: "conversion \<Rightarrow> Handler \<Rightarrow> Disk \<Rightarrow> request_body \<Rightarrow> (Handler \<times> Disk \<times> response) outcome" where
  "PutStorageSyncInterval conv h d body =
     (case parseIntField conv body ''sync_interval_minutes'' ''value'' minSyncIntervalMinutes of
        (v, found, Some err) \<Rightarrow> Returns (h, d, Response 400 (FieldError err))
      | (v, False, None) \<Rightarrow> Returns (h, d, Response 400 (ErrorBody ''invalid body''))
      | (v, True, None) \<Rightarrow>
          (case updateStorageSyncInterval h d v of
             Panics m \<Rightarrow> Panics m
           | Returns (h', d') \<Rightarrow> Returns (h', d', Response 200 (SyncIntervalBody v))))"

section \<open>States and predicates used in the statements\<close>

subsection \<open>Concrete states\<close>

text \<open>
  Configurations, stores, handlers, requests and bodies at which the statements below are
  evaluated. \<open>serve\<close> runs requests through the middleware one after the other;
  \<open>thenUpdateConfig\<close> chains calls of \<^verbatim>\<open>UpdateConfig\<close>.
\<close>

definition sidePath :: string where
  "sidePath = ''data/read_only_storage.json''"

definition emptyFS :: filesys where
  "emptyFS = \<lparr>files = (\<lambda>_. NotExist), write_fails = (\<lambda>_. False)\<rparr>"

definition fsWith :: "string \<Rightarrow> file_state \<Rightarrow> filesys" where
  "fsWith path st = emptyFS\<lparr>files := (files emptyFS)(path := st)\<rparr>"

definition cfg0 :: Config where
  "cfg0 = \<lparr>readOnlyStorage = True, syncIntervalMinutes = 5, AllowRemote = False, SecretKey = []\<rparr>"

definition cfgRO :: Config where
  "cfgRO = \<lparr>readOnlyStorage = True, syncIntervalMinutes = 10, AllowRemote = True, SecretKey = ''hash''\<rparr>"

definition cfgRW :: Config where
  "cfgRW = \<lparr>readOnlyStorage = False, syncIntervalMinutes = 10, AllowRemote = True, SecretKey = ''hash''\<rparr>"

definition store1 :: GitTokenStore where
  "store1 = \<lparr>ensureRepositoryResult = None, repoDir = ''/repo'', pendingLocalChanges = (False, None)\<rparr>"

definition thenUpdateConfig :: "(GitScheduler \<times> error option) outcome \<Rightarrow> Config option \<Rightarrow> (GitScheduler \<times> error option) outcome" where
  "thenUpdateConfig r c = (case r of Panics m \<Rightarrow> Panics m | Returns (s, _) \<Rightarrow> UpdateConfig s c)"



definition readingOf :: "int \<Rightarrow> wake \<Rightarrow> reading" where
  "readingOf minutes w =
     \<lparr>cfgRead = Some (cfgRO\<lparr>syncIntervalMinutes := minutes\<rparr>), runningRead = True,
      syncError = None, woken = w\<rparr>"

definition cfgRemote :: Config where
  "cfgRemote = \<lparr>readOnlyStorage = False, syncIntervalMinutes = 5, AllowRemote = True, SecretKey = ''hash''\<rparr>"

definition bcrypt0 :: "string \<Rightarrow> string \<Rightarrow> bool" where
  "bcrypt0 hash key = (hash = ''hash'' \<and> key = ''good'')"

definition handler0 :: Handler where
  "handler0 = \<lparr>cfg = Some cfgRemote, configFilePath = ''config.yaml'', failedAttempts = (\<lambda>_. None),
               localPassword = ''pw'', allowRemoteOverride = False, envSecret = [],
               scheduler = None\<rparr>"

definition withAttempt :: "Handler \<Rightarrow> string \<Rightarrow> int \<Rightarrow> int option \<Rightarrow> Handler" where
  "withAttempt h ip n b = h\<lparr>failedAttempts := (failedAttempts h)(ip := Some \<lparr>count = n, blockedUntil = b\<rparr>)\<rparr>"

definition requestFrom :: "string \<Rightarrow> string \<Rightarrow> request" where
  "requestFrom ip key = \<lparr>clientIP = ip, authorizationHeader = [], managementKeyHeader = key\<rparr>"

definition remoteIP :: string where
  "remoteIP = ''10.0.0.9''"

fun serve :: "(string \<Rightarrow> string \<Rightarrow> bool) \<Rightarrow> Handler \<Rightarrow> (int \<times> request) list \<Rightarrow> Handler" where
  "serve bcrypt h [] = h"
| "serve bcrypt h ((now, req) # rs) = serve bcrypt (fst (Middleware bcrypt h now req)) rs"

definition cfgNoKey :: Config where
  "cfgNoKey = \<lparr>readOnlyStorage = False, syncIntervalMinutes = 5, AllowRemote = False, SecretKey = []\<rparr>"

definition disk0 :: Disk where
  "disk0 = \<lparr>sideFiles = emptyFS, mainConfig = (\<lambda>_. None), saveFails = False\<rparr>"

definition bodyOf :: "string \<Rightarrow> body_value \<Rightarrow> request_body" where
  "bodyOf key val = Some [(key, val)]"

definition storeWith :: "bool \<Rightarrow> GitTokenStore" where
  "storeWith pending =
     \<lparr>ensureRepositoryResult = None, repoDir = ''/repo'', pendingLocalChanges = (pending, None)\<rparr>"

definition bodyTrue :: request_body where
  "bodyTrue = bodyOf ''read_only'' (BBool True)"

definition malformedDisk :: Disk where
  "malformedDisk = disk0\<lparr>sideFiles := fsWith sidePath (File Malformed)\<rparr>"

definition oldSideDisk :: Disk where
  "oldSideDisk =
     disk0\<lparr>sideFiles := fsWith sidePath
       (File (Wellformed (JObject [(''read_only'', JBool False),
                                   (''sync_interval_minutes'', JNumber (IntLit 3))])))\<rparr>"

definition wired :: "bool \<Rightarrow> Handler" where
  "wired pending = handler0\<lparr>scheduler := Some (NewGitScheduler (Some cfgRemote) (Some (storeWith pending)))\<rparr>"

subsection \<open>Predicates\<close>

text \<open>
  The locals \<^verbatim>\<open>localClient\<close>, \<^verbatim>\<open>allowRemote\<close> and \<^verbatim>\<open>secretHash\<close> of the middleware, as
  functions of the request and the handler.
\<close>

definition isLocal :: "request \<Rightarrow> bool" where
  "isLocal req = (clientIP req = ''127.0.0.1'' \<or> clientIP req = ''::1'')"

definition allowRemoteOf :: "Handler \<Rightarrow> bool" where
  "allowRemoteOf h = (allowRemoteOverride h \<or> (case cfg h of None \<Rightarrow> False | Some c \<Rightarrow> AllowRemote c))"

definition secretHashOf :: "Handler \<Rightarrow> string" where
  "secretHashOf h = (case cfg h of None \<Rightarrow> [] | Some c \<Rightarrow> SecretKey c)"

text \<open>
  The failure counter in force for a caller: the counter of its entry, and zero when it has
  no entry or its entry carries a ban (a ban and a counter above zero never go together, see
  \<open>attemptsOk\<close>, and a ban that has run out is cleared before a failure is counted).
\<close>

definition failureCount :: "Handler \<Rightarrow> string \<Rightarrow> int" where
  "failureCount h ip =
     (case failedAttempts h ip of
        None \<Rightarrow> 0
      | Some ai \<Rightarrow> (case blockedUntil ai of None \<Rightarrow> count ai | Some t \<Rightarrow> 0))"

text \<open>
  The invariant of the attempt map: a counter stays from 0 to 4, and is 0 under a ban.
\<close>

definition attemptsOk :: "Handler \<Rightarrow> bool" where
  "attemptsOk h =
     (\<forall>ip ai. failedAttempts h ip = Some ai \<longrightarrow>
        0 \<le> count ai \<and> count ai < maxFailures \<and> (blockedUntil ai \<noteq> None \<longrightarrow> count ai = 0))"

text \<open>The refusal of \<^verbatim>\<open>ensureCanEnableReadOnly\<close> for pending local changes.\<close>

definition pendingRefusal :: response where
  "pendingRefusal = Response 400 (ErrorBody
     ''Cannot enable read-only mode while there are pending local changes. Please sync changes first.'')"





text \<open>
  For enabling read-only mode: \<open>sideFileAccepts\<close> says that the side file can be rewritten,
  which is when it can be written and what it holds now is absent, unreadable or decodes;
  \<open>intervalOf\<close> is the interval of the handler's configuration, 0 when it holds none.
\<close>

definition sideFileAccepts :: "Disk \<Rightarrow> bool" where
  "sideFileAccepts d =
     (\<not> write_fails (sideFiles d) sidePath
      \<and> (case files (sideFiles d) sidePath of
           File t \<Rightarrow> (case Unmarshal t of Inl e \<Rightarrow> False | Inr roc \<Rightarrow> True)
         | _ \<Rightarrow> True))"

definition intervalOf :: "Handler \<Rightarrow> int" where
  "intervalOf h = (case cfg h of None \<Rightarrow> 0 | Some c \<Rightarrow> syncIntervalMinutes c)"






section \<open>Properties of the side file\<close>

lemma foldEq_refl [simp]: "foldEq a a"
  by (simp add: foldEq_def)

lemma Unmarshal_MarshalIndent:
  "inInt64 (SyncInterval roc) \<Longrightarrow>
   Unmarshal (MarshalIndent roc) = Inr \<lparr>ReadOnly = ReadOnly roc, SyncInterval = SyncInterval roc\<rparr>"
  by (simp add: Unmarshal_def MarshalIndent_def zeroReadOnlyStorageConfig_def foldEq_def toLower_def)

text \<open>
  Claim C6. Loading the side file: when the file is absent the read-only flag becomes false
  and no error is returned; when the file is there and is no JSON (or does not decode into
  the document) the flag becomes false and an error is returned; when the file decodes, its
  \<^verbatim>\<open>read_only\<close> is adopted, and its \<^verbatim>\<open>sync_interval_minutes\<close> is adopted only when it is
  positive: a zero, negative or absent interval leaves the previous interval in place.
\<close>

theorem load_side_file:
  "(files fs path = NotExist \<longrightarrow>
      LoadReadOnlyStorageConfig setter fs path = (setter\<lparr>readOnlyStorage := False\<rparr>, None))
   \<and> (files fs path = File Malformed \<longrightarrow>
      fst (LoadReadOnlyStorageConfig setter fs path) = setter\<lparr>readOnlyStorage := False\<rparr>
      \<and> snd (LoadReadOnlyStorageConfig setter fs path) \<noteq> None)
   \<and> (files fs path = File t \<and> Unmarshal t = Inl e \<longrightarrow>
      fst (LoadReadOnlyStorageConfig setter fs path) = setter\<lparr>readOnlyStorage := False\<rparr>
      \<and> snd (LoadReadOnlyStorageConfig setter fs path) \<noteq> None)
   \<and> (files fs path = File t \<and> Unmarshal t = Inr roc \<longrightarrow>
      LoadReadOnlyStorageConfig setter fs path =
        (setter\<lparr>readOnlyStorage := ReadOnly roc,
                syncIntervalMinutes :=
                  (if 0 < SyncInterval roc then SyncInterval roc else syncIntervalMinutes setter)\<rparr>,
         None))
   \<and> (files fs path =
        File (Wellformed (JObject [(''read_only'', JBool b),
                                   (''sync_interval_minutes'', JNumber (IntLit n))]))
      \<and> inInt64 n \<longrightarrow>
      LoadReadOnlyStorageConfig setter fs path =
        (setter\<lparr>readOnlyStorage := b,
                syncIntervalMinutes := (if 0 < n then n else syncIntervalMinutes setter)\<rparr>,
         None))
   \<and> (files fs path = File (Wellformed (JObject [(''read_only'', JBool b)])) \<longrightarrow>
      LoadReadOnlyStorageConfig setter fs path = (setter\<lparr>readOnlyStorage := b\<rparr>, None))"
  by (simp add: LoadReadOnlyStorageConfig_def ReadFile_def Unmarshal_def
      SetReadOnlyStorage_def SetSyncIntervalMinutes_def zeroReadOnlyStorageConfig_def
      foldEq_def toLower_def Let_def)

theorem load_side_file_witness:
  "LoadReadOnlyStorageConfig cfg0 emptyFS sidePath = (cfg0\<lparr>readOnlyStorage := False\<rparr>, None)
   \<and> fst (LoadReadOnlyStorageConfig cfg0 (fsWith sidePath (File Malformed)) sidePath)
       = cfg0\<lparr>readOnlyStorage := False\<rparr>
   \<and> snd (LoadReadOnlyStorageConfig cfg0 (fsWith sidePath (File Malformed)) sidePath) \<noteq> None
   \<and> LoadReadOnlyStorageConfig cfg0
        (fsWith sidePath (File (Wellformed (JObject [(''read_only'', JBool True),
           (''sync_interval_minutes'', JNumber (IntLit 10))])))) sidePath
       = (cfg0\<lparr>readOnlyStorage := True, syncIntervalMinutes := 10\<rparr>, None)
   \<and> LoadReadOnlyStorageConfig cfg0
        (fsWith sidePath (File (Wellformed (JObject [(''read_only'', JBool False),
           (''sync_interval_minutes'', JNumber (IntLit 0))])))) sidePath
       = (cfg0\<lparr>readOnlyStorage := False, syncIntervalMinutes := 5\<rparr>, None)
   \<and> LoadReadOnlyStorageConfig cfg0
        (fsWith sidePath (File (Wellformed (JObject [(''read_only'', JBool False)])))) sidePath
       = (cfg0\<lparr>readOnlyStorage := False\<rparr>, None)"
  using load_side_file [of emptyFS sidePath cfg0]
    load_side_file [of "fsWith sidePath (File Malformed)" sidePath cfg0]
    load_side_file [of "fsWith sidePath (File (Wellformed (JObject [(''read_only'', JBool True),
           (''sync_interval_minutes'', JNumber (IntLit 10))])))" sidePath cfg0 _ _ _ True 10]
    load_side_file [of "fsWith sidePath (File (Wellformed (JObject [(''read_only'', JBool False),
           (''sync_interval_minutes'', JNumber (IntLit 0))])))" sidePath cfg0 _ _ _ False 0]
    load_side_file [of "fsWith sidePath (File (Wellformed (JObject [(''read_only'', JBool False)])))"
       sidePath cfg0 _ _ _ False]
  by (simp add: emptyFS_def fsWith_def cfg0_def inInt64_def minInt64_def maxInt64_def)

text \<open>
  Claim C8, as the code has it. When \<^verbatim>\<open>PersistReadOnlyState\<close> returns no error (which it does
  when the path can be written and the file there is absent or decodes), a following load
  from the same path returns no error and sets the read-only flag to the persisted value;
  the in-memory interval becomes the persisted one when that is positive, and keeps its
  previous value when the persisted interval is zero or negative.
\<close>

theorem persist_then_load:
  "(\<not> write_fails fs path \<and> (files fs path = NotExist \<or> (\<exists>t roc. files fs path = File t \<and> Unmarshal t = Inr roc))
      \<longrightarrow> snd (PersistReadOnlyState readOnly n path fs) = None)
   \<and> (snd (PersistReadOnlyState readOnly n path fs) = None \<and> inInt64 n \<longrightarrow>
        LoadReadOnlyStorageConfig setter (fst (PersistReadOnlyState readOnly n path fs)) path =
          (setter\<lparr>readOnlyStorage := readOnly,
                  syncIntervalMinutes := (if 0 < n then n else syncIntervalMinutes setter)\<rparr>,
           None))"
proof (intro conjI impI)
  assume "\<not> write_fails fs path \<and>
    (files fs path = NotExist \<or> (\<exists>t roc. files fs path = File t \<and> Unmarshal t = Inr roc))"
  then show "snd (PersistReadOnlyState readOnly n path fs) = None"
    by (auto simp: PersistReadOnlyState_def ReadFile_def WriteFile_def defaultSideDocument_def
        Unmarshal_def zeroReadOnlyStorageConfig_def foldEq_def toLower_def)
next
  assume a: "snd (PersistReadOnlyState readOnly n path fs) = None \<and> inInt64 n"
  then obtain roc where
    w: "fst (PersistReadOnlyState readOnly n path fs)
          = fs\<lparr>files := (files fs)(path := File (MarshalIndent (roc\<lparr>ReadOnly := readOnly, SyncInterval := n\<rparr>)))\<rparr>"
    by (auto simp: PersistReadOnlyState_def WriteFile_def
        split: sum.splits if_splits prod.splits option.splits)
  have u: "Unmarshal (MarshalIndent (roc\<lparr>ReadOnly := readOnly, SyncInterval := n\<rparr>))
             = Inr \<lparr>ReadOnly = readOnly, SyncInterval = n\<rparr>"
    using a Unmarshal_MarshalIndent [of "roc\<lparr>ReadOnly := readOnly, SyncInterval := n\<rparr>"] by simp
  show "LoadReadOnlyStorageConfig setter (fst (PersistReadOnlyState readOnly n path fs)) path =
          (setter\<lparr>readOnlyStorage := readOnly,
                  syncIntervalMinutes := (if 0 < n then n else syncIntervalMinutes setter)\<rparr>,
           None)"
    by (simp add: w u LoadReadOnlyStorageConfig_def ReadFile_def SetReadOnlyStorage_def
        SetSyncIntervalMinutes_def Let_def)
qed

theorem persist_then_load_witness:
  "snd (PersistReadOnlyState True 10 sidePath emptyFS) = None
   \<and> LoadReadOnlyStorageConfig cfg0 (fst (PersistReadOnlyState True 10 sidePath emptyFS)) sidePath
       = (cfg0\<lparr>readOnlyStorage := True, syncIntervalMinutes := 10\<rparr>, None)
   \<and> LoadReadOnlyStorageConfig cfg0
         (fst (PersistReadOnlyState False (- 3) sidePath
                 (fsWith sidePath (File (Wellformed (JObject [(''read_only'', JBool True)])))))) sidePath
       = (cfg0\<lparr>readOnlyStorage := False, syncIntervalMinutes := 5\<rparr>, None)"
proof -
  have d: "Unmarshal (Wellformed (JObject [(''read_only'', JBool True)]))
             = Inr \<lparr>ReadOnly = True, SyncInterval = 0\<rparr>"
    by (simp add: Unmarshal_def zeroReadOnlyStorageConfig_def)
  from d persist_then_load [of emptyFS sidePath True 10 cfg0]
    persist_then_load [of "fsWith sidePath (File (Wellformed (JObject [(''read_only'', JBool True)])))"
      sidePath False "- 3" cfg0]
  show ?thesis
    by (simp add: emptyFS_def fsWith_def cfg0_def inInt64_def minInt64_def maxInt64_def)
qed

theorem persist_then_load_counterexample:
  "snd (PersistReadOnlyState False 0 sidePath emptyFS) = None
   \<and> syncIntervalMinutes
        (fst (LoadReadOnlyStorageConfig cfg0 (fst (PersistReadOnlyState False 0 sidePath emptyFS)) sidePath))
      = 5
   \<and> snd (PersistReadOnlyState True 10 sidePath (fsWith sidePath (File Malformed))) \<noteq> None
   \<and> readOnlyStorage
        (fst (LoadReadOnlyStorageConfig cfg0
                (fst (PersistReadOnlyState True 10 sidePath (fsWith sidePath (File Malformed)))) sidePath))
      = False"
  by (simp add: PersistReadOnlyState_def LoadReadOnlyStorageConfig_def ReadFile_def WriteFile_def
      Unmarshal_def MarshalIndent_def defaultSideDocument_def zeroReadOnlyStorageConfig_def
      SetReadOnlyStorage_def SetSyncIntervalMinutes_def foldEq_def toLower_def
      emptyFS_def fsWith_def cfg0_def sidePath_def Let_def)

section \<open>Properties of the scheduler\<close>

subsection \<open>UpdateConfig\<close>

text \<open>
  Claim C5, as the code has it. A nil configuration yields an error and leaves the scheduler
  as it is. For a configuration that is not nil the held configuration is replaced, and:
  when its read-only flag is true and the scheduler is stopped, \<^verbatim>\<open>Start\<close> is called; the
  scheduler then ends running, with one more loop launched, when its token store is set,
  while with no token store \<^verbatim>\<open>Start\<close> returns the error "token store is nil" and the
  scheduler stays stopped. When the flag is false, the scheduler is running and its stop
  channel is open, \<^verbatim>\<open>Stop\<close> is called and the scheduler ends stopped. When the flag and
  the phase agree already, neither \<^verbatim>\<open>Start\<close> nor \<^verbatim>\<open>Stop\<close> is called, the phase stays and
  no loop is launched.
\<close>

theorem UpdateConfig_transitions:
  "UpdateConfig s None = Returns (s, Some (Errorf ''configuration is nil''))
   \<and> (IsReadOnlyStorage c \<and> \<not> running s \<and> tokenStore s \<noteq> None \<longrightarrow>
        UpdateConfig s (Some c) =
          Returns (s\<lparr>config := Some c, calls := calls s @ [CallStart], running := True,
                     spawned := spawned s @ [stopCh s]\<rparr>, None))
   \<and> (IsReadOnlyStorage c \<and> \<not> running s \<and> tokenStore s = None \<longrightarrow>
        UpdateConfig s (Some c) =
          Returns (s\<lparr>config := Some c, calls := calls s @ [CallStart]\<rparr>,
                   Some (Errorf ''token store is nil'')))
   \<and> (\<not> IsReadOnlyStorage c \<and> running s \<and> \<not> chanClosed s (stopCh s) \<longrightarrow>
        UpdateConfig s (Some c) =
          Returns (s\<lparr>config := Some c, calls := calls s @ [CallStop],
                     chanClosed := (chanClosed s)(stopCh s := True), running := False\<rparr>, None))
   \<and> (IsReadOnlyStorage c = running s \<longrightarrow>
        UpdateConfig s (Some c) = Returns (s\<lparr>config := Some c\<rparr>, None))"
  by (auto simp: UpdateConfig_def Start_def Stop_def closeChan_def Let_def)

theorem UpdateConfig_transitions_witness:
  "UpdateConfig (NewGitScheduler None (Some store1)) (Some cfgRO) =
     Returns ((NewGitScheduler None (Some store1))
                \<lparr>config := Some cfgRO, calls := [CallStart], running := True, spawned := [0]\<rparr>, None)
   \<and> UpdateConfig (NewGitScheduler None None) (Some cfgRO) =
     Returns ((NewGitScheduler None None)\<lparr>config := Some cfgRO, calls := [CallStart]\<rparr>,
              Some (Errorf ''token store is nil''))
   \<and> UpdateConfig ((NewGitScheduler None (Some store1))\<lparr>running := True\<rparr>) (Some cfgRW) =
     Returns ((NewGitScheduler None (Some store1))
                \<lparr>config := Some cfgRW, calls := [CallStop],
                  chanClosed := (\<lambda>_. False)(0 := True), running := False\<rparr>, None)
   \<and> UpdateConfig (NewGitScheduler None (Some store1)) (Some cfgRW) =
     Returns ((NewGitScheduler None (Some store1))\<lparr>config := Some cfgRW\<rparr>, None)"
  using UpdateConfig_transitions [of "NewGitScheduler None (Some store1)" cfgRO]
    UpdateConfig_transitions [of "NewGitScheduler None None" cfgRO]
    UpdateConfig_transitions [of "(NewGitScheduler None (Some store1))\<lparr>running := True\<rparr>" cfgRW]
    UpdateConfig_transitions [of "NewGitScheduler None (Some store1)" cfgRW]
  by (simp add: NewGitScheduler_def cfgRO_def cfgRW_def IsReadOnlyStorage_def)

theorem UpdateConfig_counterexample:
  "UpdateConfig (NewGitScheduler None None) (Some cfgRO) =
     Returns (\<lparr>config = Some cfgRO, tokenStore = None, stopCh = 0, running = False,
               onSyncComplete = False, chanClosed = (\<lambda>_. False), nextChan = 1, spawned = [],
               calls = [CallStart]\<rparr>, Some (Errorf ''token store is nil''))"
  by (simp add: UpdateConfig_def Start_def NewGitScheduler_def cfgRO_def IsReadOnlyStorage_def Let_def)

text \<open>
  \<^verbatim>\<open>Stop\<close> closes the stop channel and \<^verbatim>\<open>Start\<close> makes a new one only when the scheduler
  is running. So after a stop the next start hands the closed channel to the new loop, and
  the stop after that closes it a second time: switching read-only on, off, on and off
  again panics.
\<close>

lemma UpdateConfig_toggle_panics:
  "thenUpdateConfig (thenUpdateConfig (thenUpdateConfig
      (UpdateConfig (NewGitScheduler None (Some store1)) (Some cfgRO))
      (Some cfgRW)) (Some cfgRO)) (Some cfgRW)
   = Panics ''close of closed channel''"
  by (simp add: thenUpdateConfig_def UpdateConfig_def Start_def Stop_def closeChan_def
      NewGitScheduler_def cfgRO_def cfgRW_def IsReadOnlyStorage_def Let_def)

subsection \<open>One sync attempt\<close>

text \<open>
  The sync of \<^verbatim>\<open>src/unnamed/part_003\<close>: the references are tried in the order remote
  HEAD, main, master; no pull is ever made; and an attempt that succeeds has fetched from
  origin with force, resolved a reference and reset the worktree hard to its commit, which
  leaves no local modification.
\<close>

lemma resolveRemoteRef_order:
  "resolveRemoteRef env =
     (if remoteRefs env ''refs/remotes/origin/HEAD'' \<noteq> None
      then ([Reference ''refs/remotes/origin/HEAD''], remoteRefs env ''refs/remotes/origin/HEAD'')
      else if remoteRefs env ''refs/remotes/origin/main'' \<noteq> None
      then ([Reference ''refs/remotes/origin/HEAD'', Reference ''refs/remotes/origin/main''],
            remoteRefs env ''refs/remotes/origin/main'')
      else ([Reference ''refs/remotes/origin/HEAD'', Reference ''refs/remotes/origin/main'',
             Reference ''refs/remotes/origin/master''],
            remoteRefs env ''refs/remotes/origin/master''))"
  by (auto simp: resolveRemoteRef_def split: option.splits)

lemma resolveRemoteRef_no_pull: "Pull r f \<notin> set (fst (resolveRemoteRef env))"
  by (simp add: resolveRemoteRef_order)

lemma pullChanges_never_pulls: "Pull r f \<notin> set (fst (pullChanges st env wt))"
  using resolveRemoteRef_no_pull [of r f env]
  by (auto simp: pullChanges_def split: option.splits fetch_result.splits prod.splits)

lemma pullChanges_success:
  "pullChanges st env wt = (acts, wt', None) \<Longrightarrow>
   \<exists>h. snd (resolveRemoteRef env) = Some h
     \<and> acts = [PlainOpen (repoDir st), Fetch ''origin'' True] @ fst (resolveRemoteRef env)
               @ [GetWorktree, Reset h HardReset]
     \<and> wt' = \<lparr>checkedOut = h, localModifications = False\<rparr>"
  by (auto simp: pullChanges_def split: option.splits fetch_result.splits prod.splits if_splits)

lemma pullChanges_unresolved:
  "repoDir st \<noteq> [] \<Longrightarrow> plainOpenResult env = None \<Longrightarrow> fetchResult env \<noteq> FetchFailed e \<Longrightarrow>
   snd (resolveRemoteRef env) = None \<Longrightarrow>
   snd (snd (pullChanges st env wt)) \<noteq> None \<and> fst (snd (pullChanges st env wt)) = wt"
  by (auto simp: pullChanges_def split: option.splits fetch_result.splits prod.splits if_splits)




subsection \<open>The run loop\<close>

text \<open>
  In \<^verbatim>\<open>src/unnamed/part_003\<close> an iteration that finds read-only enabled calls the sync
  first and then waits for the timer or the cancellation. The timer is the configured
  interval in minutes when that is positive and its nanoseconds fit 64 bits (at most
  153722867 minutes), and 60 minutes when the interval is zero or negative.
\<close>

lemma wrapInt64_id: "- (2 ^ 63) \<le> x \<Longrightarrow> x < 2 ^ 63 \<Longrightarrow> wrapInt64 x = x"
  by (simp add: wrapInt64_def)

lemma syncIntervalOf_in_range:
  "- 153722867 \<le> m \<Longrightarrow> m \<le> 153722867 \<Longrightarrow>
   syncIntervalOf m = (if 0 < m then m * Minute else 60 * Minute)"
proof -
  assume a: "- 153722867 \<le> m" "m \<le> 153722867"
  have "wrapInt64 (m * Minute) = m * Minute"
    using a by (intro wrapInt64_id) (simp_all add: Minute_def Second_def)
  then show ?thesis
    by (auto simp: syncIntervalOf_def Let_def Minute_def Second_def)
qed

lemma run_syncs_then_waits:
  "runningRead r \<Longrightarrow> cfgRead r = Some c \<Longrightarrow> IsReadOnlyStorage c \<Longrightarrow>
   run (r # rs) =
     CallSync # logSync (syncError r)
       @ WaitTimerOrCancel (syncIntervalOf (SyncIntervalMinutes c))
       # (if woken r = TimerFired then run rs else [StopTimer, Exit])"
  by (simp split: wake.splits)

lemma Start_then_run_syncs_first:
  "Start s = Returns (s', None) \<Longrightarrow> config s' = Some c \<Longrightarrow> IsReadOnlyStorage c \<Longrightarrow>
   hd (run (\<lparr>cfgRead = config s', runningRead = running s', syncError = e, woken = w\<rparr> # rs)) = CallSync"
  by (auto simp: Start_def closeChan_def Let_def split: if_splits outcome.splits)

lemma run_scheduler_go_waits_then_syncs:
  "runningRead r \<Longrightarrow> cfgRead r = Some c \<Longrightarrow> readOnlyStorage c \<Longrightarrow>
   run_scheduler_go (r # rs) =
     WaitTimerOrCancel (syncIntervalOf (syncIntervalMinutes c))
       # (if woken r = TimerFired then CallSync # logSync (syncError r) @ run_scheduler_go rs
          else [StopTimer, Exit])"
  by (simp split: wake.splits)

text \<open>
  Claim C2 at concrete readings, read-only enabled. With an interval of 10 minutes the loop
  of \<^verbatim>\<open>src/internal/store/scheduler.go\<close> waits 10 minutes first and calls the sync only
  when the timer has fired; cancelled during that wait, it exits and has never synced. The
  loop of \<^verbatim>\<open>src/unnamed/part_003\<close> syncs first and then waits 10 minutes. With an interval
  of 153722868 minutes the product with \<^verbatim>\<open>time.Minute\<close> wraps around to a negative
  duration, and the loop of \<^verbatim>\<open>src/unnamed/part_003\<close> waits 60 minutes.
\<close>

theorem run_scheduler_go_waits_first:
  "run_scheduler_go [readingOf 10 TimerFired] = [WaitTimerOrCancel (10 * Minute), CallSync]
   \<and> run_scheduler_go [readingOf 10 Cancelled] = [WaitTimerOrCancel (10 * Minute), StopTimer, Exit]
   \<and> run [readingOf 10 Cancelled] = [CallSync, WaitTimerOrCancel (10 * Minute), StopTimer, Exit]
   \<and> run [readingOf 153722868 Cancelled] = [CallSync, WaitTimerOrCancel (60 * Minute), StopTimer, Exit]"
  by (simp add: readingOf_def cfgRO_def logSync_def syncIntervalOf_def wrapInt64_def Minute_def
      Second_def IsReadOnlyStorage_def SyncIntervalMinutes_def Let_def)

section \<open>Properties of the middleware\<close>

lemmas Middleware_eval = Middleware_def banCheck_def fail_def resetAttempts_def providedKey_def
  maxFailures_def banDuration_def Minute_def Second_def Round_def goRem_def wrapInt64_def
  minInt64_def maxInt64_def Let_def

lemma banCheck_cases:
  "banCheck h now ip = (h', b) \<Longrightarrow>
   (b \<noteq> None \<longrightarrow> h' = h) \<and>
   (b = None \<longrightarrow> failureCount h' ip = failureCount h ip
       \<and> (failedAttempts h ip = None \<longleftrightarrow> failedAttempts h' ip = None)
       \<and> (\<forall>ai. failedAttempts h' ip = Some ai \<longrightarrow> blockedUntil ai = None \<and> count ai = failureCount h ip))"
  by (auto simp: banCheck_def failureCount_def split: option.splits if_splits)

lemma banCheck_frame:
  "banCheck h now ip = (h', b) \<Longrightarrow>
   cfg h' = cfg h \<and> envSecret h' = envSecret h \<and> localPassword h' = localPassword h
   \<and> allowRemoteOverride h' = allowRemoteOverride h"
  by (auto simp: banCheck_def split: option.splits if_splits)

lemma Middleware_nonlocal:
  assumes "\<not> isLocal req" and "banCheck h now (clientIP req) = (h', None)"
  shows "Middleware bcrypt h now req =
     (if \<not> allowRemoteOf h then (h', AbortWithStatusJSON 403 (ErrorText ''remote management disabled''))
      else if secretHashOf h = [] \<and> envSecret h = []
      then (h', AbortWithStatusJSON 403 (ErrorText ''remote management key not set''))
      else if providedKey req = []
      then (fail h' now (clientIP req), AbortWithStatusJSON 401 (ErrorText ''missing management key''))
      else if envSecret h \<noteq> [] \<and> providedKey req = envSecret h
      then (resetAttempts h' (clientIP req), Next)
      else if secretHashOf h = [] \<or> \<not> bcrypt (secretHashOf h) (providedKey req)
      then (fail h' now (clientIP req), AbortWithStatusJSON 401 (ErrorText ''invalid management key''))
      else (resetAttempts h' (clientIP req), Next))"
  using assms
  by (simp add: Middleware_def Let_def isLocal_def allowRemoteOf_def secretHashOf_def)

lemma Middleware_banned:
  assumes "\<not> isLocal req" and "banCheck h now (clientIP req) = (h', Some r)"
  shows "Middleware bcrypt h now req = (h', AbortWithStatusJSON 403 (BannedTryAgainIn r))"
  using assms
  by (simp add: Middleware_def Let_def isLocal_def)

lemma Middleware_local:
  assumes "isLocal req"
  shows "Middleware bcrypt h now req =
     (if secretHashOf h = [] \<and> envSecret h = []
      then (h, AbortWithStatusJSON 403 (ErrorText ''remote management key not set''))
      else if providedKey req = []
      then (h, AbortWithStatusJSON 401 (ErrorText ''missing management key''))
      else if localPassword h \<noteq> [] \<and> providedKey req = localPassword h then (h, Next)
      else if envSecret h \<noteq> [] \<and> providedKey req = envSecret h then (h, Next)
      else if secretHashOf h = [] \<or> \<not> bcrypt (secretHashOf h) (providedKey req)
      then (h, AbortWithStatusJSON 401 (ErrorText ''invalid management key''))
      else (h, Next))"
  using assms unfolding isLocal_def
  by (elim disjE) (simp_all add: Middleware_def Let_def secretHashOf_def)

lemma fail_entry:
  "failedAttempts (fail h now ip) ip =
     Some (let c = (case failedAttempts h ip of None \<Rightarrow> 0 | Some a \<Rightarrow> count a) + 1;
               b = (case failedAttempts h ip of None \<Rightarrow> None | Some a \<Rightarrow> blockedUntil a)
           in if c \<ge> 5 then \<lparr>count = 0, blockedUntil = Some (now + 30 * Minute)\<rparr>
              else \<lparr>count = c, blockedUntil = b\<rparr>)"
  by (simp add: fail_def maxFailures_def banDuration_def Let_def split: option.splits)

lemma resetAttempts_entry:
  "failedAttempts h ip \<noteq> None \<Longrightarrow>
   failedAttempts (resetAttempts h ip) ip = Some \<lparr>count = 0, blockedUntil = None\<rparr>"
  by (auto simp: resetAttempts_def split: option.splits)

text \<open>The middleware keeps the invariant of the attempt map.\<close>

lemma attemptsOk_banCheck: "attemptsOk h \<Longrightarrow> attemptsOk (fst (banCheck h now ip))"
  by (auto simp: attemptsOk_def banCheck_def maxFailures_def split: option.splits if_splits)

lemma attemptsOk_fail:
  "attemptsOk h \<Longrightarrow> \<forall>ai. failedAttempts h ip = Some ai \<longrightarrow> blockedUntil ai = None \<Longrightarrow>
   attemptsOk (fail h now ip)"
  by (auto simp: attemptsOk_def fail_def maxFailures_def Let_def split: option.splits if_splits)

lemma attemptsOk_resetAttempts: "attemptsOk h \<Longrightarrow> attemptsOk (resetAttempts h ip)"
  by (auto simp: attemptsOk_def resetAttempts_def maxFailures_def split: option.splits if_splits)

lemma attemptsOk_Middleware:
  assumes "attemptsOk h"
  shows "attemptsOk (fst (Middleware bcrypt h now req))"
proof (cases "isLocal req")
  case True
  with assms Middleware_local [of req bcrypt h now] show ?thesis by simp
next
  case False
  obtain h' b where bc: "banCheck h now (clientIP req) = (h', b)"
    by (cases "banCheck h now (clientIP req)")
  with assms attemptsOk_banCheck [of h now "clientIP req"] have ok: "attemptsOk h'" by simp
  show ?thesis
  proof (cases b)
    case None
    with banCheck_cases [OF bc]
    have "\<forall>ai. failedAttempts h' (clientIP req) = Some ai \<longrightarrow> blockedUntil ai = None" by simp
    with None False bc ok Middleware_nonlocal [of req h now h' bcrypt]
      attemptsOk_fail [of h' "clientIP req" now] attemptsOk_resetAttempts [of h' "clientIP req"]
    show ?thesis by simp
  next
    case (Some r)
    with False bc ok Middleware_banned [of req h now h' r bcrypt] show ?thesis by simp
  qed
qed

lemma attemptsOk_serve: "attemptsOk h \<Longrightarrow> attemptsOk (serve bcrypt h rs)"
  by (induction rs arbitrary: h) (auto simp: attemptsOk_Middleware)

lemma attemptsOk_initial: "failedAttempts h = (\<lambda>_. None) \<Longrightarrow> attemptsOk h"
  by (simp add: attemptsOk_def)

lemma failureCount_is_count:
  "attemptsOk h \<Longrightarrow> failedAttempts h ip = Some ai \<Longrightarrow> failureCount h ip = count ai"
  by (auto simp: attemptsOk_def failureCount_def split: option.splits)

text \<open>
  Claim C4. For a caller that is not local: while its ban has not run out, every request is
  refused with status 403 and the remaining ban, whatever key it presents, and nothing
  changes; every request refused with status 401 (a missing or an invalid key) adds one to
  the caller's failure counter, and when that makes 5 the counter is set back to zero and a
  ban is set that ends 30 minutes later; every request that is let through sets the counter
  and the ban of a caller that has an entry back to zero.
\<close>

theorem attempt_tracking:
  "(\<not> isLocal req \<and> failedAttempts h (clientIP req) = Some ai \<and> blockedUntil ai = Some t \<and> now < t \<longrightarrow>
      Middleware bcrypt h now req =
        (h, AbortWithStatusJSON 403 (BannedTryAgainIn (Round (t - now) Second))))
   \<and> (\<not> isLocal req \<and> snd (Middleware bcrypt h now req) = AbortWithStatusJSON 401 e \<longrightarrow>
      failedAttempts (fst (Middleware bcrypt h now req)) (clientIP req) =
        Some (if failureCount h (clientIP req) + 1 \<ge> 5
              then \<lparr>count = 0, blockedUntil = Some (now + 30 * Minute)\<rparr>
              else \<lparr>count = failureCount h (clientIP req) + 1, blockedUntil = None\<rparr>))
   \<and> (\<not> isLocal req \<and> snd (Middleware bcrypt h now req) = Next
        \<and> failedAttempts h (clientIP req) \<noteq> None \<longrightarrow>
      failedAttempts (fst (Middleware bcrypt h now req)) (clientIP req) =
        Some \<lparr>count = 0, blockedUntil = None\<rparr>)"
proof (intro conjI impI)
  assume "\<not> isLocal req \<and> failedAttempts h (clientIP req) = Some ai \<and> blockedUntil ai = Some t \<and> now < t"
  then show "Middleware bcrypt h now req =
        (h, AbortWithStatusJSON 403 (BannedTryAgainIn (Round (t - now) Second)))"
    by (simp add: Middleware_def banCheck_def isLocal_def Let_def)
next
  assume a: "\<not> isLocal req \<and> snd (Middleware bcrypt h now req) = AbortWithStatusJSON 401 e"
  obtain h' b where bc: "banCheck h now (clientIP req) = (h', b)"
    by (cases "banCheck h now (clientIP req)")
  have bn: "b = None"
  proof (cases b)
    case None then show ?thesis .
  next
    case (Some r)
    with a bc Middleware_banned [of req h now h' r bcrypt] show ?thesis by simp
  qed
  note mw = Middleware_nonlocal [of req h now h' bcrypt]
  from a bc bn mw have f: "fst (Middleware bcrypt h now req) = fail h' now (clientIP req)"
    by (auto split: if_splits)
  from banCheck_cases [OF bc] bn have
    k: "failureCount h' (clientIP req) = failureCount h (clientIP req)"
    and n: "\<forall>ai. failedAttempts h' (clientIP req) = Some ai \<longrightarrow>
                 blockedUntil ai = None \<and> count ai = failureCount h (clientIP req)"
    and z: "failedAttempts h (clientIP req) = None \<longleftrightarrow> failedAttempts h' (clientIP req) = None"
    by simp_all
  show
    "failedAttempts (fst (Middleware bcrypt h now req)) (clientIP req) =
        Some (if failureCount h (clientIP req) + 1 \<ge> 5
              then \<lparr>count = 0, blockedUntil = Some (now + 30 * Minute)\<rparr>
              else \<lparr>count = failureCount h (clientIP req) + 1, blockedUntil = None\<rparr>)"
  proof (cases "failedAttempts h' (clientIP req)")
    case None
    with z have "failureCount h (clientIP req) = 0" by (simp add: failureCount_def)
    with None show ?thesis unfolding f fail_entry by simp
  next
    case (Some a)
    with n have "blockedUntil a = None" "count a = failureCount h (clientIP req)" by simp_all
    with Some show ?thesis unfolding f fail_entry by (simp add: Let_def)
  qed
next
  assume a: "\<not> isLocal req \<and> snd (Middleware bcrypt h now req) = Next
        \<and> failedAttempts h (clientIP req) \<noteq> None"
  obtain h' b where bc: "banCheck h now (clientIP req) = (h', b)"
    by (cases "banCheck h now (clientIP req)")
  have bn: "b = None"
  proof (cases b)
    case None then show ?thesis .
  next
    case (Some r)
    with a bc Middleware_banned [of req h now h' r bcrypt] show ?thesis by simp
  qed
  note mw = Middleware_nonlocal [of req h now h' bcrypt]
  from a bc bn mw have f: "fst (Middleware bcrypt h now req) = resetAttempts h' (clientIP req)"
    by (auto split: if_splits)
  from banCheck_cases [OF bc] bn a have "failedAttempts h' (clientIP req) \<noteq> None" by simp
  then show
    "failedAttempts (fst (Middleware bcrypt h now req)) (clientIP req) =
        Some \<lparr>count = 0, blockedUntil = None\<rparr>"
    unfolding f by (rule resetAttempts_entry)
qed

theorem attempt_tracking_witness:
  "Middleware bcrypt0 (withAttempt handler0 remoteIP 0 (Some (100 * Minute))) (80 * Minute)
       (requestFrom remoteIP ''good'')
     = (withAttempt handler0 remoteIP 0 (Some (100 * Minute)),
        AbortWithStatusJSON 403 (BannedTryAgainIn (20 * Minute)))
   \<and> failedAttempts (fst (Middleware bcrypt0 handler0 7 (requestFrom remoteIP ''bad''))) remoteIP
     = Some \<lparr>count = 1, blockedUntil = None\<rparr>
   \<and> failedAttempts (fst (Middleware bcrypt0 (withAttempt handler0 remoteIP 4 None) 7
                             (requestFrom remoteIP ''bad''))) remoteIP
     = Some \<lparr>count = 0, blockedUntil = Some (7 + 30 * Minute)\<rparr>
   \<and> failedAttempts (fst (Middleware bcrypt0 (withAttempt handler0 remoteIP 0 (Some (100 * Minute)))
                             (100 * Minute) (requestFrom remoteIP ''good''))) remoteIP
     = Some \<lparr>count = 0, blockedUntil = None\<rparr>"
  using
    attempt_tracking [of "requestFrom remoteIP ''good''"
      "withAttempt handler0 remoteIP 0 (Some (100 * Minute))"
      "\<lparr>count = 0, blockedUntil = Some (100 * Minute)\<rparr>" "100 * Minute" "80 * Minute" bcrypt0]
    attempt_tracking [of "requestFrom remoteIP ''bad''" handler0 _ _ 7 bcrypt0
      "ErrorText ''invalid management key''"]
    attempt_tracking [of "requestFrom remoteIP ''bad''" "withAttempt handler0 remoteIP 4 None" _ _ 7
      bcrypt0 "ErrorText ''invalid management key''"]
    attempt_tracking [of "requestFrom remoteIP ''good''"
      "withAttempt handler0 remoteIP 0 (Some (100 * Minute))" _ _ "100 * Minute" bcrypt0]
  by (simp add: Middleware_eval requestFrom_def withAttempt_def handler0_def cfgRemote_def
      bcrypt0_def remoteIP_def isLocal_def failureCount_def)

text \<open>
  The scenario of the spec: five failed attempts in a row from one address ban it; the
  sixth attempt is refused although its key is right; once the ban has run out the right
  key is let through and the entry is reset.
\<close>

lemma five_failures_then_ban:
  "failedAttempts (serve bcrypt0 handler0
       [(1, requestFrom remoteIP ''bad''), (2, requestFrom remoteIP ''bad''),
        (3, requestFrom remoteIP []), (4, requestFrom remoteIP ''bad''),
        (5, requestFrom remoteIP ''bad'')]) remoteIP
     = Some \<lparr>count = 0, blockedUntil = Some (5 + 30 * Minute)\<rparr>
   \<and> snd (Middleware bcrypt0 (withAttempt handler0 remoteIP 0 (Some (5 + 30 * Minute))) 6
            (requestFrom remoteIP ''good''))
     = AbortWithStatusJSON 403 (BannedTryAgainIn (30 * Minute))
   \<and> Middleware bcrypt0 (withAttempt handler0 remoteIP 0 (Some (5 + 30 * Minute))) (5 + 30 * Minute)
            (requestFrom remoteIP ''good'')
     = (withAttempt handler0 remoteIP 0 None, Next)"
  by (simp add: Middleware_eval requestFrom_def withAttempt_def handler0_def cfgRemote_def
      bcrypt0_def remoteIP_def)

text \<open>
  Claim C10, as the code has it. When the configured secret hash and the environment secret
  are both empty, every request is refused with status 403 before any key is compared. A
  local caller is told that the remote management key is not set, also when it presents the
  right local password. A caller that is not local is refused by the checks that come
  first: with the ban message while it is banned, with "remote management disabled" when
  remote management is not allowed, and with "remote management key not set" otherwise.
\<close>

theorem key_not_set:
  "envSecret h = [] \<and> secretHashOf h = [] \<longrightarrow>
     snd (Middleware bcrypt h now req) =
       (if isLocal req then AbortWithStatusJSON 403 (ErrorText ''remote management key not set'')
        else case snd (banCheck h now (clientIP req)) of
               Some remaining \<Rightarrow> AbortWithStatusJSON 403 (BannedTryAgainIn remaining)
             | None \<Rightarrow>
                 if allowRemoteOf h
                 then AbortWithStatusJSON 403 (ErrorText ''remote management key not set'')
                 else AbortWithStatusJSON 403 (ErrorText ''remote management disabled''))
     \<and> (isLocal req \<longrightarrow> fst (Middleware bcrypt h now req) = h)"
proof (intro impI)
  assume a: "envSecret h = [] \<and> secretHashOf h = []"
  show "snd (Middleware bcrypt h now req) =
       (if isLocal req then AbortWithStatusJSON 403 (ErrorText ''remote management key not set'')
        else case snd (banCheck h now (clientIP req)) of
               Some remaining \<Rightarrow> AbortWithStatusJSON 403 (BannedTryAgainIn remaining)
             | None \<Rightarrow>
                 if allowRemoteOf h
                 then AbortWithStatusJSON 403 (ErrorText ''remote management key not set'')
                 else AbortWithStatusJSON 403 (ErrorText ''remote management disabled''))
     \<and> (isLocal req \<longrightarrow> fst (Middleware bcrypt h now req) = h)"
  proof (cases "isLocal req")
    case True
    with a Middleware_local [of req bcrypt h now] show ?thesis by simp
  next
    case False
    obtain h' b where bc: "banCheck h now (clientIP req) = (h', b)"
      by (cases "banCheck h now (clientIP req)")
    show ?thesis
    proof (cases b)
      case None
      with False bc a Middleware_nonlocal [of req h now h' bcrypt] show ?thesis by simp
    next
      case (Some r)
      with False bc Middleware_banned [of req h now h' r bcrypt] show ?thesis by simp
    qed
  qed
qed

theorem key_not_set_witness:
  "Middleware bcrypt0 (handler0\<lparr>cfg := Some cfgNoKey\<rparr>) 0 (requestFrom ''127.0.0.1'' ''pw'')
     = (handler0\<lparr>cfg := Some cfgNoKey\<rparr>,
        AbortWithStatusJSON 403 (ErrorText ''remote management key not set''))"
  using key_not_set [of "handler0\<lparr>cfg := Some cfgNoKey\<rparr>" bcrypt0 0 "requestFrom ''127.0.0.1'' ''pw''"]
  by (simp add: handler0_def cfgNoKey_def secretHashOf_def isLocal_def requestFrom_def prod_eq_iff)

theorem key_not_set_counterexample:
  "Middleware bcrypt0 (handler0\<lparr>cfg := Some cfgNoKey\<rparr>) 0 (requestFrom remoteIP ''pw'')
     = (handler0\<lparr>cfg := Some cfgNoKey\<rparr>,
        AbortWithStatusJSON 403 (ErrorText ''remote management disabled''))"
  by (simp add: Middleware_eval requestFrom_def handler0_def cfgNoKey_def remoteIP_def)

section \<open>Properties of the storage endpoints\<close>

subsection \<open>Enabling read-only mode\<close>

lemmas PutStorageReadOnly_eval = PutStorageReadOnly_def parseBoolField_def ShouldBindJSON_def
  ensureCanEnableReadOnly_def updateStorageReadOnly_def pushConfig_def persistConfig_def
  SaveConfigPreserveComments_def persistReadOnlyToJSONAfterUnlock_def
  persistBothToJSONAfterUnlock_def ReadFile_def WriteFile_def Unmarshal_def MarshalIndent_def
  defaultSideDocument_def zeroReadOnlyStorageConfig_def SetReadOnlyStorage_def
  IsReadOnlyStorage_def SyncIntervalMinutes_def foldEq_def toLower_def Let_def

lemma UpdateConfig_enable_returns:
  "IsReadOnlyStorage c \<Longrightarrow>
   \<exists>s'. config s' = Some c \<and> (\<exists>e. UpdateConfig s (Some c) = Returns (s', e))"
  by (auto simp: UpdateConfig_def Start_def Let_def)

lemma updateStorageReadOnly_enable:
  "\<exists>h' d'. updateStorageReadOnly h d True = Returns (h', d')
      \<and> cfg h' = map_option (\<lambda>c. SetReadOnlyStorage c True) (cfg h)"
proof (cases "cfg h")
  case None
  then show ?thesis by (simp add: updateStorageReadOnly_def)
next
  case (Some c)
  have ro: "IsReadOnlyStorage (SetReadOnlyStorage c True)"
    by (simp add: IsReadOnlyStorage_def SetReadOnlyStorage_def)
  show ?thesis
  proof (cases "scheduler h")
    case None
    with Some show ?thesis by (simp add: updateStorageReadOnly_def pushConfig_def Let_def)
  next
    case (Some s)
    from UpdateConfig_enable_returns [OF ro, of s] obtain s' e where
      "UpdateConfig s (Some (SetReadOnlyStorage c True)) = Returns (s', e)" by blast
    with Some \<open>cfg h = Some c\<close> show ?thesis
      by (simp add: updateStorageReadOnly_def pushConfig_def Let_def)
  qed
qed

text \<open>
  Claim C3, as the code has it. When the handler's scheduler is set, a request that sets
  read-only to true first asks \<^verbatim>\<open>HasPendingLocalChanges\<close>. When that reports true the
  request is refused with status 400 and the conflict message, and the handler (the flag,
  the scheduler and its configuration) and both persisted copies are as before. When it
  reports false the request returns status 200 and the flag is set.
\<close>

theorem enable_read_only_guard:
  "parseBoolField body ''read_only'' ''value'' = (True, True) \<and> scheduler h = Some s \<longrightarrow>
     queried (ensureCanEnableReadOnly h)
     \<and> (HasPendingLocalChanges s = (True, None) \<longrightarrow>
          PutStorageReadOnly h d body = Returns (h, d, pendingRefusal))
     \<and> (HasPendingLocalChanges s = (False, None) \<longrightarrow>
          (case PutStorageReadOnly h d body of
             Panics m \<Rightarrow> False
           | Returns (h', d', r) \<Rightarrow>
               r = Response 200 (ReadOnlyBody True)
               \<and> cfg h' = map_option (\<lambda>c. SetReadOnlyStorage c True) (cfg h)))"
proof (intro impI conjI)
  assume a: "parseBoolField body ''read_only'' ''value'' = (True, True) \<and> scheduler h = Some s"
  then show "queried (ensureCanEnableReadOnly h)"
    by (auto simp: ensureCanEnableReadOnly_def split: prod.splits option.splits)
  {
    assume "HasPendingLocalChanges s = (True, None)"
    with a show "PutStorageReadOnly h d body = Returns (h, d, pendingRefusal)"
      by (simp add: PutStorageReadOnly_def ensureCanEnableReadOnly_def pendingRefusal_def)
  }
  {
    assume p: "HasPendingLocalChanges s = (False, None)"
    from updateStorageReadOnly_enable [of h d] obtain h' d' where
      u: "updateStorageReadOnly h d True = Returns (h', d')"
         "cfg h' = map_option (\<lambda>c. SetReadOnlyStorage c True) (cfg h)" by blast
    with a p show "case PutStorageReadOnly h d body of
             Panics m \<Rightarrow> False
           | Returns (h', d', r) \<Rightarrow>
               r = Response 200 (ReadOnlyBody True)
               \<and> cfg h' = map_option (\<lambda>c. SetReadOnlyStorage c True) (cfg h)"
      by (simp add: PutStorageReadOnly_def ensureCanEnableReadOnly_def)
  }
qed

theorem enable_read_only_guard_witness:
  "queried (ensureCanEnableReadOnly (wired True))
   \<and> PutStorageReadOnly (wired True) disk0 bodyTrue = Returns (wired True, disk0, pendingRefusal)
   \<and> (case PutStorageReadOnly (wired False) disk0 bodyTrue of
         Panics m \<Rightarrow> False
       | Returns (h', d', r) \<Rightarrow>
           r = Response 200 (ReadOnlyBody True)
           \<and> cfg h' = Some (cfgRemote\<lparr>readOnlyStorage := True\<rparr>))"
proof -
  have b: "parseBoolField bodyTrue ''read_only'' ''value'' = (True, True)"
    by (simp add: parseBoolField_def ShouldBindJSON_def bodyTrue_def bodyOf_def)
  have s: "scheduler (wired p) = Some (NewGitScheduler (Some cfgRemote) (Some (storeWith p)))" for p
    by (simp add: wired_def)
  have q: "HasPendingLocalChanges (NewGitScheduler (Some cfgRemote) (Some (storeWith p))) = (p, None)" for p
    by (simp add: HasPendingLocalChanges_def NewGitScheduler_def storeWith_def)
  have c: "cfg (wired False) = Some cfgRemote"
    by (simp add: wired_def handler0_def)
  from b s q c
    enable_read_only_guard [of bodyTrue "wired True"
          "NewGitScheduler (Some cfgRemote) (Some (storeWith True))" disk0]
    enable_read_only_guard [of bodyTrue "wired False"
          "NewGitScheduler (Some cfgRemote) (Some (storeWith False))" disk0]
  show ?thesis by (auto simp: SetReadOnlyStorage_def split: outcome.splits)
qed

theorem enable_read_only_guard_counterexample:
  "queried (ensureCanEnableReadOnly handler0) = False
   \<and> (case PutStorageReadOnly handler0 disk0 bodyTrue of
         Panics m \<Rightarrow> False
       | Returns (h', d', r) \<Rightarrow>
           r = Response 200 (ReadOnlyBody True)
           \<and> cfg h' = Some (cfgRemote\<lparr>readOnlyStorage := True\<rparr>)
           \<and> mainConfig d' ''config.yaml'' = Some (cfgRemote\<lparr>readOnlyStorage := True\<rparr>))"
  by (simp add: PutStorageReadOnly_eval bodyTrue_def bodyOf_def handler0_def cfgRemote_def
      disk0_def emptyFS_def)

lemma persistBothToJSONAfterUnlock_sideFiles:
  "persistBothToJSONAfterUnlock d readOnly interval =
     (if sideFileAccepts d
      then d\<lparr>sideFiles := (sideFiles d)\<lparr>files := (files (sideFiles d))(sidePath :=
                File (Wellformed (JObject
                  ((''read_only'', JBool readOnly) #
                   (if interval = 0 then []
                    else [(''sync_interval_minutes'', JNumber (IntLit interval))])))))\<rparr>\<rparr>
      else d)"
  by (cases "files (sideFiles d) sidePath")
     (auto simp: persistBothToJSONAfterUnlock_def sideFileAccepts_def sidePath_def ReadFile_def
        WriteFile_def MarshalIndent_def defaultSideDocument_def Unmarshal_def
        zeroReadOnlyStorageConfig_def foldEq_def toLower_def Let_def split: sum.splits)

text \<open>
  Claim C9, as the code has it. When the handler's scheduler is unset, the guard allows
  the request without asking \<^verbatim>\<open>HasPendingLocalChanges\<close>, and a request that sets read-only
  to true is answered 200 with \<^verbatim>\<open>read_only\<close> true. The flag of the handler's configuration
  is then set; a handler that holds no configuration is left as it is. The main
  configuration is saved with the flag set when the handler holds a configuration and the
  save does not fail. The side file is rewritten to \<^verbatim>\<open>read_only\<close> true and the interval of
  the handler's configuration (left out when it is 0) when it can be written and what it
  holds is absent, unreadable or decodes; otherwise it is left as it was.
\<close>

theorem enable_without_scheduler:
  "scheduler h = None \<and> parseBoolField body ''read_only'' ''value'' = (True, True) \<longrightarrow>
     allowed (ensureCanEnableReadOnly h) \<and> \<not> queried (ensureCanEnableReadOnly h)
     \<and> (\<exists>h' d'. PutStorageReadOnly h d body = Returns (h', d', Response 200 (ReadOnlyBody True))
          \<and> h' = (case cfg h of
                    None \<Rightarrow> h
                  | Some c \<Rightarrow> h\<lparr>cfg := Some (c\<lparr>readOnlyStorage := True\<rparr>)\<rparr>)
          \<and> saveFails d' = saveFails d
          \<and> mainConfig d' =
              (case cfg h of
                 None \<Rightarrow> mainConfig d
               | Some c \<Rightarrow>
                   if saveFails d then mainConfig d
                   else (mainConfig d)(configFilePath h := Some (c\<lparr>readOnlyStorage := True\<rparr>)))
          \<and> write_fails (sideFiles d') = write_fails (sideFiles d)
          \<and> files (sideFiles d') =
              (if sideFileAccepts d
               then (files (sideFiles d))(sidePath :=
                      File (Wellformed (JObject
                        ((''read_only'', JBool True) #
                         (if intervalOf h = 0 then []
                          else [(''sync_interval_minutes'', JNumber (IntLit (intervalOf h)))])))))
               else files (sideFiles d)))"
proof (intro impI)
  assume a: "scheduler h = None \<and> parseBoolField body ''read_only'' ''value'' = (True, True)"
  have s: "sideFileAccepts (d\<lparr>mainConfig := x\<rparr>) = sideFileAccepts d" for x
    by (simp add: sideFileAccepts_def)
  from a show "allowed (ensureCanEnableReadOnly h) \<and> \<not> queried (ensureCanEnableReadOnly h)
     \<and> (\<exists>h' d'. PutStorageReadOnly h d body = Returns (h', d', Response 200 (ReadOnlyBody True))
          \<and> h' = (case cfg h of
                    None \<Rightarrow> h
                  | Some c \<Rightarrow> h\<lparr>cfg := Some (c\<lparr>readOnlyStorage := True\<rparr>)\<rparr>)
          \<and> saveFails d' = saveFails d
          \<and> mainConfig d' =
              (case cfg h of
                 None \<Rightarrow> mainConfig d
               | Some c \<Rightarrow>
                   if saveFails d then mainConfig d
                   else (mainConfig d)(configFilePath h := Some (c\<lparr>readOnlyStorage := True\<rparr>)))
          \<and> write_fails (sideFiles d') = write_fails (sideFiles d)
          \<and> files (sideFiles d') =
              (if sideFileAccepts d
               then (files (sideFiles d))(sidePath :=
                      File (Wellformed (JObject
                        ((''read_only'', JBool True) #
                         (if intervalOf h = 0 then []
                          else [(''sync_interval_minutes'', JNumber (IntLit (intervalOf h)))])))))
               else files (sideFiles d)))"
    by (cases "cfg h")
       (simp_all add: PutStorageReadOnly_def ensureCanEnableReadOnly_def updateStorageReadOnly_def
          pushConfig_def persistConfig_def SaveConfigPreserveComments_def
          persistReadOnlyToJSONAfterUnlock_def persistBothToJSONAfterUnlock_sideFiles s
          intervalOf_def SetReadOnlyStorage_def SyncIntervalMinutes_def Let_def)
qed

text \<open>
  The theorem at a handler without a scheduler and a side file that says read-only false
  with interval 3: the file then says read-only true with the interval 5 of the
  configuration.
\<close>

theorem enable_without_scheduler_witness:
  "\<not> queried (ensureCanEnableReadOnly handler0)
   \<and> PutStorageReadOnly handler0 oldSideDisk bodyTrue =
       Returns (handler0\<lparr>cfg := Some (cfgRemote\<lparr>readOnlyStorage := True\<rparr>)\<rparr>,
                \<lparr>sideFiles = fsWith sidePath
                   (File (Wellformed (JObject [(''read_only'', JBool True),
                                               (''sync_interval_minutes'', JNumber (IntLit 5))]))),
                 mainConfig = (\<lambda>_. None)(''config.yaml'' := Some (cfgRemote\<lparr>readOnlyStorage := True\<rparr>)),
                 saveFails = False\<rparr>,
                Response 200 (ReadOnlyBody True))"
proof -
  have b: "parseBoolField bodyTrue ''read_only'' ''value'' = (True, True)"
    by (simp add: parseBoolField_def ShouldBindJSON_def bodyTrue_def bodyOf_def)
  have s: "scheduler handler0 = None" "cfg handler0 = Some cfgRemote"
    "configFilePath handler0 = ''config.yaml''" "intervalOf handler0 = 5"
    by (simp_all add: handler0_def intervalOf_def cfgRemote_def)
  have d: "sideFileAccepts oldSideDisk" "saveFails oldSideDisk = False"
    "mainConfig oldSideDisk = (\<lambda>_. None)"
    "write_fails (sideFiles oldSideDisk) = (\<lambda>_. False)"
    "files (sideFiles oldSideDisk) = (\<lambda>_. NotExist)(sidePath :=
        File (Wellformed (JObject [(''read_only'', JBool False),
                                   (''sync_interval_minutes'', JNumber (IntLit 3))])))"
    by (simp_all add: sideFileAccepts_def oldSideDisk_def disk0_def fsWith_def emptyFS_def
        Unmarshal_def zeroReadOnlyStorageConfig_def foldEq_def toLower_def sidePath_def
        inInt64_def minInt64_def maxInt64_def)
  from b s d enable_without_scheduler [of handler0 bodyTrue oldSideDisk]
  show ?thesis
    by (auto simp: fsWith_def emptyFS_def Disk.equality filesys.equality)
qed

text \<open>
  Where claim C9 fails as written. With a side file that is no JSON the request is answered
  200 and the side file still is no JSON: the flag is not persisted there. With a handler
  that holds no configuration and a main configuration that cannot be saved the request is
  answered 200 too, and there is no in-memory flag and no saved configuration.
\<close>

theorem enable_without_scheduler_counterexample:
  "PutStorageReadOnly handler0 malformedDisk bodyTrue =
     Returns (handler0\<lparr>cfg := Some (cfgRemote\<lparr>readOnlyStorage := True\<rparr>)\<rparr>,
              malformedDisk\<lparr>mainConfig := (\<lambda>_. None)(''config.yaml'' := Some (cfgRemote\<lparr>readOnlyStorage := True\<rparr>))\<rparr>,
              Response 200 (ReadOnlyBody True))
   \<and> files (sideFiles malformedDisk) sidePath = File Malformed
   \<and> PutStorageReadOnly (handler0\<lparr>cfg := None\<rparr>) (disk0\<lparr>saveFails := True\<rparr>) bodyTrue =
       Returns (handler0\<lparr>cfg := None\<rparr>,
                disk0\<lparr>saveFails := True,
                      sideFiles := fsWith sidePath (File (Wellformed (JObject [(''read_only'', JBool True)])))\<rparr>,
                Response 200 (ReadOnlyBody True))"
  by (simp add: PutStorageReadOnly_eval bodyTrue_def bodyOf_def handler0_def cfgRemote_def
      disk0_def emptyFS_def malformedDisk_def fsWith_def sidePath_def)

subsection \<open>Setting the sync interval\<close>

text \<open>
  Rounding to a \<^verbatim>\<open>float64\<close>: a whole number from 1 to \<open>2\<^sup>5\<^sup>3\<close> is a \<^verbatim>\<open>float64\<close>
  itself; some numbers that are not.
\<close>

lemma roundHalfEven_of_int [simp]: "roundHalfEven (of_int m) = m"
  by (simp add: roundHalfEven_def)

lemma floorLog2_of_int:
  assumes "0 < n"
  shows "floorLog2 (of_int n) = bitlen n - 1"
proof -
  from bitlen_bounds [OF assms] have b: "2 ^ nat (bitlen n - 1) \<le> n" ..
  from assms have p: "1 \<le> bitlen n" by (auto simp: bitlen_alt_def)
  have "(2::rat) ^ nat (bitlen n - 1) = of_int (2 ^ nat (bitlen n - 1))" by simp
  also have "\<dots> \<le> of_int n" using b by (simp only: of_int_le_iff)
  finally have "pow2 (bitlen n - 1) \<le> of_int n" using p by (simp add: pow2_def)
  moreover have "bitlen 1 = 1" by (simp add: bitlen_alt_def)
  ultimately show ?thesis by (simp add: floorLog2_def quotient_of_int)
qed

lemma toFloat64_of_int:
  assumes "1 \<le> n" and "n \<le> 2 ^ 53"
  shows "toFloat64 (of_int n) = Some (of_int n)"
proof (cases "n = 2 ^ 53")
  case True
  have "toFloat64 9007199254740992 = Some 9007199254740992" by code_simp
  with True show ?thesis by simp
next
  case False
  with assms have lt: "n < 2 ^ 53" by simp
  from assms have pos: "0 < n" by simp
  define e where "e = bitlen n - 1"
  have e0: "0 \<le> e" using pos by (auto simp: e_def bitlen_alt_def)
  have "bitlen n \<le> 53" using lt by (simp add: bitlen_le_iff_power)
  then have e52: "e \<le> 52" by (simp add: e_def)
  define k where "k = nat (52 - e)"
  have fl: "floorLog2 (of_int n) = e" using floorLog2_of_int [OF pos] by (simp add: e_def)
  have ulp: "pow2 (e - 52) = 1 / 2 ^ k"
  proof (cases "e = 52")
    case True then show ?thesis by (simp add: pow2_def k_def)
  next
    case False
    with e52 have "e - 52 < 0" by simp
    then show ?thesis by (simp add: pow2_def k_def)
  qed
  have q: "(of_int n :: rat) / pow2 (e - 52) = of_int (n * 2 ^ k)"
    unfolding ulp by simp
  have r: "of_int (roundHalfEven (of_int n / pow2 (e - 52))) * pow2 (e - 52) = (of_int n :: rat)"
    unfolding q roundHalfEven_of_int unfolding ulp by simp
  have bound: "\<not> pow2 1024 \<le> (of_int n :: rat)"
  proof -
    have "(of_int n :: rat) < of_int (2 ^ 53)" using lt by (simp only: of_int_less_iff)
    also have "\<dots> \<le> pow2 1024" by (simp add: pow2_def)
    finally show ?thesis by simp
  qed
  have m: "max e (- 1022) = e" using e0 by simp
  from pos have nz: "(of_int n :: rat) \<noteq> 0" "\<bar>of_int n :: rat\<bar> = of_int n" "\<not> (of_int n :: rat) < 0"
    by simp_all
  show ?thesis
    unfolding toFloat64_def Let_def
    by (simp only: nz fl m r bound if_False)
qed








lemma toFloat64_15: "toFloat64 15 = Some 15"
  using toFloat64_of_int [of 15] by simp








lemma truncToZero_whole: "f = of_int \<lfloor>f\<rfloor> \<Longrightarrow> truncToZero f = \<lfloor>f\<rfloor>"
proof -
  assume "f = of_int \<lfloor>f\<rfloor>"
  then obtain k :: int where k: "f = of_int k" ..
  show ?thesis unfolding k truncToZero_def by simp
qed







text \<open>
  The whole effect of an accepted request, on the handler and on both persisted copies.
\<close>

lemmas PutStorageSyncInterval_eval = PutStorageSyncInterval_def parseIntField_def
  ShouldBindJSON_def parseIntValue_def floatToInt_def truncToZero_def inInt64_def minInt64_def
  maxInt64_def minSyncIntervalMinutes_def updateStorageSyncInterval_def pushConfig_def
  persistConfig_def SaveConfigPreserveComments_def persistSyncIntervalToJSONAfterUnlock_def
  persistBothToJSONAfterUnlock_def ReadFile_def WriteFile_def Unmarshal_def MarshalIndent_def
  defaultSideDocument_def zeroReadOnlyStorageConfig_def SetSyncIntervalMinutes_def
  IsReadOnlyStorage_def foldEq_def toLower_def Let_def

lemma sync_interval_accepted_value:
  "PutStorageSyncInterval conv handler0 disk0 (bodyOf ''value'' (BNumber 15)) =
     Returns (handler0\<lparr>cfg := Some (cfgRemote\<lparr>syncIntervalMinutes := 15\<rparr>)\<rparr>,
              \<lparr>sideFiles = fsWith sidePath
                 (File (Wellformed (JObject [(''read_only'', JBool False),
                                             (''sync_interval_minutes'', JNumber (IntLit 15))]))),
               mainConfig = (\<lambda>_. None)(''config.yaml'' := Some (cfgRemote\<lparr>syncIntervalMinutes := 15\<rparr>)),
               saveFails = False\<rparr>,
              Response 200 (SyncIntervalBody 15))"
  by (simp add: PutStorageSyncInterval_eval toFloat64_15 bodyOf_def handler0_def cfgRemote_def
      disk0_def emptyFS_def fsWith_def sidePath_def)


end
